theory Spec2Isabelle
  imports Main
begin

section \<open>The declaration surface of \<^verbatim>\<open>shim-deno.lib.d.ts\<close>\<close>

text \<open>
  The source file \<^verbatim>\<open>src/packages/shim-deno/lib/shim-deno.lib.d.ts\<close> is a TypeScript
  declaration file: two imports, a handful of ambient DOM event declarations, the exported
  namespace \<^verbatim>\<open>Deno\<close> and one ambient module. It contains no expressions to evaluate, so
  the embedding is the file itself as a value: every declaration of the source becomes one
  constant of type \<open>decl\<close>, written in the order and with the names of the source, and the
  properties of the surface are functions over these values.

  Comments (among them the triple-slash reference directive of line 3) are not
  part of the declarations and are left out. Parentheses around a type and the optional
  leading \<^verbatim>\<open>|\<close> of a union are syntax only and leave no trace in the tree. The one property
  whose name the source writes as a string literal (\<^verbatim>\<open>change\<close>, line 3309) is kept by its name.
\<close>

subsection \<open>Syntax of declarations\<close>

text \<open>
  TypeScript lets a function, method, accessor or constructor carry a body, and a constant,
  field or enum member an initializer. The syntax tree keeps a place for both (\<open>None\<close> when the
  source has none), so that their absence is a fact about the file and not about the tree.
\<close>

datatype expr = ENum int | EStr string | EName string

datatype stmt = SExpr expr | SReturn "expr option"

text \<open>
  Types. \<open>TRef n args\<close> is a reference to a named type, qualified names included
  (\<^verbatim>\<open>Deno.FileInfo\<close>, \<^verbatim>\<open>Promise<void>\<close>); \<open>TImport m n args\<close> is the import type
  \<^verbatim>\<open>import(m).n<args>\<close>;
  \<open>TCond c e t f\<close> is \<^verbatim>\<open>c extends e ? t : f\<close>; \<open>TIndexed t i\<close> is \<^verbatim>\<open>t[i]\<close>;
  \<open>TReadonly\<close> is the \<^verbatim>\<open>readonly\<close> type operator and \<open>TRest\<close> a rest element of a tuple.
  A parameter is its name, whether it is optional (\<^verbatim>\<open>?\<close>) and its type. A member of an
  interface or of an object type is a property (readonly?, name, optional?, type), a method
  (name, optional?, parameters, result), a call signature or an index signature.
\<close>

datatype ty =
    TNumber | TString | TBoolean | TVoid | TNull | TUndefined | TNever | TUnknown | TAny | TBigint
  | TUniqueSymbol
  | TStrLit string
  | TNumLit int
  | TBoolLit bool
  | TRef string "ty list"
  | TTypeof string
  | TImport string string "ty list"
  | TUnion "ty list"
  | TInter "ty list"
  | TArray ty
  | TReadonly ty
  | TTuple "ty list"
  | TRest ty
  | TIndexed ty ty
  | TCond ty ty ty ty
  | TFun "param list" ty
  | TObj "member list"
and param = Param string bool ty
and member =
    Prop bool string bool ty
  | Method string bool "param list" ty
  | CallSig "param list" ty
  | IndexSig string ty ty

text \<open>A type parameter: name, constraint (\<^verbatim>\<open>extends\<close>) and default.\<close>

datatype tparam = TParam string "ty option" "ty option"

text \<open>
  Members of a class: a field (modifiers, name, optional?, type annotation, initializer), a
  method (modifiers, name, parameters, result, body), a \<^verbatim>\<open>get\<close> accessor (name, result, body)
  and a constructor (parameters, body).
\<close>

datatype cmod = Static | Readonly

datatype cmember =
    CField "cmod list" string bool "ty option" "expr option"
  | CMethod "cmod list" string "param list" ty "stmt list option"
  | CGetter string ty "stmt list option"
  | CCtor "param list" "stmt list option"

text \<open>
  Declarations, each with its \<^verbatim>\<open>export\<close>/\<^verbatim>\<open>declare\<close> modifiers:
  \<^item> \<open>DImport names module\<close>
  \<^item> \<open>DConst mods name type initializer\<close>
  \<^item> \<open>DFunction mods name type-parameters parameters result body\<close>
  \<^item> \<open>DClass mods name type-parameters extends implements members\<close>
  \<^item> \<open>DInterface mods name extends members\<close>
  \<^item> \<open>DType mods name type\<close> (a type alias)
  \<^item> \<open>DEnum mods name members\<close>, a member being its name and initializer
  \<^item> \<open>DNamespace mods name members\<close> and \<open>DModule mods name members\<close>
  \<^item> \<open>DStatement statement\<close>, a statement standing where a declaration may stand; the file
    has none
\<close>

datatype dmod = Export | Declare

datatype decl =
    DImport "string list" string
  | DConst "dmod list" string ty "expr option"
  | DFunction "dmod list" string "tparam list" "param list" ty "stmt list option"
  | DClass "dmod list" string "tparam list" "ty option" "ty list" "cmember list"
  | DInterface "dmod list" string "ty list" "member list"
  | DType "dmod list" string ty
  | DEnum "dmod list" string "(string \<times> expr option) list"
  | DNamespace "dmod list" string "decl list"
  | DModule "dmod list" string "decl list"
  | DStatement stmt

subsection \<open>The declarations of the file\<close>

text \<open>
  One constant per declaration, in source order, each with the line of the source it
  transcribes. A name declared more than once (the overloads of a function, the parts of a
  merged interface) gets a running number. Members of the namespace \<^verbatim>\<open>Deno\<close> are prefixed
  \<open>Deno_\<close>, the ambient declarations outside it \<open>Global_\<close>.
\<close>

text \<open>top level, line 5: import\<close>

definition import_url :: decl where
  "import_url =
    DImport [''URL''] ''url''"

text \<open>top level, line 6: import\<close>

definition import_stream_web :: decl where
  "import_stream_web =
    DImport [''ReadableStream'', ''WritableStream''] ''node:stream/web''"

text \<open>top level, line 14: class \<^verbatim>\<open>EventTarget\<close>\<close>

definition Global_EventTarget :: decl where
  "Global_EventTarget =
    DClass [Declare] ''EventTarget'' [] None []
      [CMethod [] ''addEventListener''
         [Param ''type'' False TString,
          Param ''listener'' False
            (TUnion [TRef ''EventListenerOrEventListenerObject'' [], TNull]),
          Param ''options'' True (TUnion [TBoolean, TRef ''AddEventListenerOptions'' []])]
         TVoid
         None,
       CMethod [] ''dispatchEvent'' [Param ''event'' False (TRef ''Event'' [])] TBoolean None,
       CMethod [] ''removeEventListener''
         [Param ''type'' False TString,
          Param ''callback'' False
            (TUnion [TRef ''EventListenerOrEventListenerObject'' [], TNull]),
          Param ''options'' True (TUnion [TRef ''EventListenerOptions'' [], TBoolean])]
         TVoid
         None]"

text \<open>top level, line 59: class \<^verbatim>\<open>Event\<close>\<close>

definition Global_Event :: decl where
  "Global_Event =
    DClass [Declare] ''Event'' [] None []
      [CField [Readonly] ''bubbles'' False (Some TBoolean) None,
       CField [] ''cancelBubble'' False (Some TBoolean) None,
       CField [Readonly] ''cancelable'' False (Some TBoolean) None,
       CField [Readonly] ''composed'' False (Some TBoolean) None,
       CField [Readonly] ''currentTarget'' False
         (Some (TUnion [TRef ''EventTarget'' [], TNull]))
         None,
       CField [Readonly] ''defaultPrevented'' False (Some TBoolean) None,
       CField [Readonly] ''eventPhase'' False (Some TNumber) None,
       CField [Readonly] ''isTrusted'' False (Some TBoolean) None,
       CField [Readonly] ''target'' False (Some (TUnion [TRef ''EventTarget'' [], TNull])) None,
       CField [Readonly] ''timeStamp'' False (Some TNumber) None,
       CField [Readonly] ''type'' False (Some TString) None,
       CField [Readonly] ''AT_TARGET'' False (Some TNumber) None,
       CField [Readonly] ''BUBBLING_PHASE'' False (Some TNumber) None,
       CField [Readonly] ''CAPTURING_PHASE'' False (Some TNumber) None,
       CField [Readonly] ''NONE'' False (Some TNumber) None,
       CField [Static, Readonly] ''AT_TARGET'' False (Some TNumber) None,
       CField [Static, Readonly] ''BUBBLING_PHASE'' False (Some TNumber) None,
       CField [Static, Readonly] ''CAPTURING_PHASE'' False (Some TNumber) None,
       CField [Static, Readonly] ''NONE'' False (Some TNumber) None,
       CCtor
         [Param ''type'' False TString, Param ''eventInitDict'' True (TRef ''EventInit'' [])]
         None,
       CMethod [] ''composedPath'' [] (TArray (TRef ''EventTarget'' [])) None,
       CMethod [] ''preventDefault'' [] TVoid None,
       CMethod [] ''stopImmediatePropagation'' [] TVoid None,
       CMethod [] ''stopPropagation'' [] TVoid None]"

text \<open>top level, line 146: interface \<^verbatim>\<open>EventInit\<close>\<close>

definition Global_EventInit :: decl where
  "Global_EventInit =
    DInterface [] ''EventInit'' []
      [Prop False ''bubbles'' True TBoolean,
       Prop False ''cancelable'' True TBoolean,
       Prop False ''composed'' True TBoolean]"

text \<open>top level, line 153: interface \<^verbatim>\<open>EventListenerOptions\<close>\<close>

definition Global_EventListenerOptions :: decl where
  "Global_EventListenerOptions =
    DInterface [] ''EventListenerOptions'' [] [Prop False ''capture'' True TBoolean]"

text \<open>top level, line 158: interface \<^verbatim>\<open>AddEventListenerOptions\<close>\<close>

definition Global_AddEventListenerOptions :: decl where
  "Global_AddEventListenerOptions =
    DInterface [] ''AddEventListenerOptions'' [TRef ''EventListenerOptions'' []]
      [Prop False ''once'' True TBoolean,
       Prop False ''passive'' True TBoolean,
       Prop False ''signal'' True (TRef ''AbortSignal'' [])]"

text \<open>top level, line 165: interface \<^verbatim>\<open>EventListener\<close>\<close>

definition Global_EventListener :: decl where
  "Global_EventListener =
    DInterface [] ''EventListener'' []
      [CallSig
         [Param ''evt'' False (TRef ''Event'' [])]
         (TUnion [TVoid, TRef ''Promise'' [TVoid]])]"

text \<open>top level, line 170: interface \<^verbatim>\<open>EventListenerObject\<close>\<close>

definition Global_EventListenerObject :: decl where
  "Global_EventListenerObject =
    DInterface [] ''EventListenerObject'' []
      [Method ''handleEvent'' False
         [Param ''evt'' False (TRef ''Event'' [])]
         (TUnion [TVoid, TRef ''Promise'' [TVoid]])]"

text \<open>top level, line 175: type \<^verbatim>\<open>EventListenerOrEventListenerObject\<close>\<close>

definition Global_EventListenerOrEventListenerObject :: decl where
  "Global_EventListenerOrEventListenerObject =
    DType [Declare] ''EventListenerOrEventListenerObject''
      (TUnion [TRef ''EventListener'' [], TRef ''EventListenerObject'' []])"

text \<open>namespace Deno, line 179: const \<^verbatim>\<open>File\<close>\<close>

definition Deno_File :: decl where
  "Deno_File =
    DConst [Export] ''File'' (TTypeof ''FsFile'') None"

text \<open>namespace Deno, line 181: class \<^verbatim>\<open>FsFile\<close>\<close>

definition Deno_FsFile :: decl where
  "Deno_FsFile =
    DClass [Export] ''FsFile'' [] None [TRef ''Deno.FsFile'' []]
      [CField [Readonly] ''rid'' False (Some TNumber) None,
       CCtor [Param ''rid'' False TNumber] None,
       CGetter ''readable'' (TRef ''ReadableStream'' [TRef ''Uint8Array'' []]) None,
       CGetter ''writable'' (TRef ''WritableStream'' [TRef ''Uint8Array'' []]) None,
       CMethod [] ''write''
         [Param ''p'' False (TRef ''Uint8Array'' [])]
         (TRef ''Promise'' [TNumber])
         None,
       CMethod [] ''writeSync'' [Param ''p'' False (TRef ''Uint8Array'' [])] TNumber None,
       CMethod [] ''truncate'' [Param ''len'' True TNumber] (TRef ''Promise'' [TVoid]) None,
       CMethod [] ''truncateSync'' [Param ''len'' True TNumber] TVoid None,
       CMethod [] ''read''
         [Param ''p'' False (TRef ''Uint8Array'' [])]
         (TRef ''Promise'' [TUnion [TNumber, TNull]])
         None,
       CMethod [] ''readSync''
         [Param ''p'' False (TRef ''Uint8Array'' [])]
         (TUnion [TNumber, TNull])
         None,
       CMethod [] ''seek''
         [Param ''_offset'' False TNumber, Param ''_whence'' False (TRef ''Deno.SeekMode'' [])]
         (TRef ''Promise'' [TNumber])
         None,
       CMethod [] ''seekSync''
         [Param ''_offset'' False TNumber, Param ''_whence'' False (TRef ''Deno.SeekMode'' [])]
         TNumber
         None,
       CMethod [] ''stat'' [] (TRef ''Promise'' [TRef ''Deno.FileInfo'' []]) None,
       CMethod [] ''statSync'' [] (TRef ''Deno.FileInfo'' []) None,
       CMethod [] ''close'' [] TVoid None]"

text \<open>namespace Deno, line 199: class \<^verbatim>\<open>Permissions\<close>\<close>

definition Deno_Permissions :: decl where
  "Deno_Permissions =
    DClass [Export] ''Permissions'' [] None [TRef ''Deno.Permissions'' []]
      [CMethod [] ''query''
         [Param ''desc'' False (TRef ''Deno.PermissionDescriptor'' [])]
         (TRef ''Promise'' [TRef ''PermissionStatus'' []])
         None,
       CMethod [] ''querySync''
         [Param ''_desc'' False (TRef ''Deno.PermissionDescriptor'' [])]
         (TRef ''PermissionStatus'' [])
         None,
       CMethod [] ''revoke''
         [Param ''desc'' False (TRef ''Deno.PermissionDescriptor'' [])]
         (TRef ''Promise'' [TRef ''PermissionStatus'' []])
         None,
       CMethod [] ''revokeSync''
         [Param ''_desc'' False (TRef ''Deno.PermissionDescriptor'' [])]
         (TRef ''PermissionStatus'' [])
         None,
       CMethod [] ''request''
         [Param ''desc'' False (TRef ''Deno.PermissionDescriptor'' [])]
         (TRef ''Promise'' [TRef ''PermissionStatus'' []])
         None,
       CMethod [] ''requestSync''
         [Param ''desc'' False (TRef ''Deno.PermissionDescriptor'' [])]
         (TRef ''PermissionStatus'' [])
         None]"

text \<open>namespace Deno, line 208: class \<^verbatim>\<open>PermissionStatus\<close>\<close>

definition Deno_PermissionStatus :: decl where
  "Deno_PermissionStatus =
    DClass [Export] ''PermissionStatus'' [] (Some (TRef ''EventTarget'' []))
      [TRef ''Deno.PermissionStatus'' []]
      [CField [Readonly] ''state'' False (Some (TRef ''Deno.PermissionState'' [])) None,
       CField [] ''onchange'' False
         (Some
            (TUnion
               [TFun
                  [Param ''this'' False (TRef ''PermissionStatus'' []),
                   Param ''ev'' False (TRef ''Event'' [])]
                  TAny,
                TNull]))
         None]"

text \<open>namespace Deno, line 213: enum \<^verbatim>\<open>SeekMode\<close>\<close>

definition Deno_SeekMode :: decl where
  "Deno_SeekMode =
    DEnum [Export] ''SeekMode''
      [(''Start'', Some (ENum 0)), (''Current'', Some (ENum 1)), (''End'', Some (ENum 2))]"

text \<open>namespace Deno, line 226: function \<^verbatim>\<open>isatty\<close>\<close>

definition Deno_isatty :: decl where
  "Deno_isatty =
    DFunction [Export] ''isatty'' [] [Param ''fd'' False TNumber] TBoolean None"

text \<open>namespace Deno, line 246: function \<^verbatim>\<open>chdir\<close>\<close>

definition Deno_chdir :: decl where
  "Deno_chdir =
    DFunction [Export] ''chdir'' []
      [Param ''directory'' False (TUnion [TString, TRef ''URL'' []])]
      TVoid
      None"

text \<open>namespace Deno, line 280: function \<^verbatim>\<open>chmod\<close>\<close>

definition Deno_chmod :: decl where
  "Deno_chmod =
    DFunction [Export] ''chmod'' []
      [Param ''path'' False (TUnion [TString, TRef ''URL'' []]), Param ''mode'' False TNumber]
      (TRef ''Promise'' [TVoid])
      None"

text \<open>namespace Deno, line 298: function \<^verbatim>\<open>chmodSync\<close>\<close>

definition Deno_chmodSync :: decl where
  "Deno_chmodSync =
    DFunction [Export] ''chmodSync'' []
      [Param ''path'' False (TUnion [TString, TRef ''URL'' []]), Param ''mode'' False TNumber]
      TVoid
      None"

text \<open>namespace Deno, line 318: function \<^verbatim>\<open>chown\<close>\<close>

definition Deno_chown :: decl where
  "Deno_chown =
    DFunction [Export] ''chown'' []
      [Param ''path'' False (TUnion [TString, TRef ''URL'' []]),
       Param ''uid'' False (TUnion [TNumber, TNull]),
       Param ''gid'' False (TUnion [TNumber, TNull])]
      (TRef ''Promise'' [TVoid])
      None"

text \<open>namespace Deno, line 338: function \<^verbatim>\<open>chownSync\<close>\<close>

definition Deno_chownSync :: decl where
  "Deno_chownSync =
    DFunction [Export] ''chownSync'' []
      [Param ''path'' False (TUnion [TString, TRef ''URL'' []]),
       Param ''uid'' False (TUnion [TNumber, TNull]),
       Param ''gid'' False (TUnion [TNumber, TNull])]
      TVoid
      None"

text \<open>namespace Deno, line 352: function \<^verbatim>\<open>close\<close>\<close>

definition Deno_close :: decl where
  "Deno_close =
    DFunction [Export] ''close'' [] [Param ''rid'' False TNumber] TVoid None"

text \<open>namespace Deno, line 369: function \<^verbatim>\<open>connect\<close>\<close>

definition Deno_connect_1 :: decl where
  "Deno_connect_1 =
    DFunction [Export] ''connect'' []
      [Param ''options'' False (TRef ''ConnectOptions'' [])]
      (TRef ''Promise'' [TRef ''TcpConn'' []])
      None"

text \<open>namespace Deno, line 389: function \<^verbatim>\<open>connect\<close>\<close>

definition Deno_connect_2 :: decl where
  "Deno_connect_2 =
    DFunction [Export] ''connect'' []
      [Param ''options'' False (TRef ''ConnectOptions'' [])]
      (TRef ''Promise'' [TRef ''TcpConn'' []])
      None"

text \<open>namespace Deno, line 409: function \<^verbatim>\<open>connect\<close>\<close>

definition Deno_connect_3 :: decl where
  "Deno_connect_3 =
    DFunction [Export] ''connect'' []
      [Param ''options'' False (TRef ''UnixConnectOptions'' [])]
      (TRef ''Promise'' [TRef ''UnixConn'' []])
      None"

text \<open>namespace Deno, line 429: function \<^verbatim>\<open>connectTls\<close>\<close>

definition Deno_connectTls_1 :: decl where
  "Deno_connectTls_1 =
    DFunction [Export] ''connectTls'' []
      [Param ''options'' False (TRef ''ConnectTlsOptions'' [])]
      (TRef ''Promise'' [TRef ''TlsConn'' []])
      None"

text \<open>namespace Deno, line 449: function \<^verbatim>\<open>connectTls\<close>\<close>

definition Deno_connectTls_2 :: decl where
  "Deno_connectTls_2 =
    DFunction [Export] ''connectTls'' []
      [Param ''options'' False (TRef ''ConnectTlsOptions'' [])]
      (TRef ''Promise'' [TRef ''TlsConn'' []])
      None"

text \<open>namespace Deno, line 464: function \<^verbatim>\<open>copy\<close>\<close>

definition Deno_copy :: decl where
  "Deno_copy =
    DFunction [Export] ''copy'' []
      [Param ''src'' False (TRef ''Reader'' []),
       Param ''dst'' False (TRef ''Writer'' []),
       Param ''options'' True (TObj [Prop False ''bufSize'' True TNumber])]
      (TRef ''Promise'' [TNumber])
      None"

text \<open>namespace Deno, line 481: function \<^verbatim>\<open>copyFile\<close>\<close>

definition Deno_copyFile :: decl where
  "Deno_copyFile =
    DFunction [Export] ''copyFile'' []
      [Param ''fromPath'' False (TUnion [TString, TRef ''URL'' []]),
       Param ''toPath'' False (TUnion [TString, TRef ''URL'' []])]
      (TRef ''Promise'' [TVoid])
      None"

text \<open>namespace Deno, line 498: function \<^verbatim>\<open>copyFileSync\<close>\<close>

definition Deno_copyFileSync :: decl where
  "Deno_copyFileSync =
    DFunction [Export] ''copyFileSync'' []
      [Param ''fromPath'' False (TUnion [TString, TRef ''URL'' []]),
       Param ''toPath'' False (TUnion [TString, TRef ''URL'' []])]
      TVoid
      None"

text \<open>namespace Deno, line 512: function \<^verbatim>\<open>create\<close>\<close>

definition Deno_create :: decl where
  "Deno_create =
    DFunction [Export] ''create'' []
      [Param ''path'' False (TUnion [TString, TRef ''URL'' []])]
      (TRef ''Promise'' [TRef ''FsFile'' []])
      None"

text \<open>namespace Deno, line 526: function \<^verbatim>\<open>createSync\<close>\<close>

definition Deno_createSync :: decl where
  "Deno_createSync =
    DFunction [Export] ''createSync'' []
      [Param ''path'' False (TUnion [TString, TRef ''URL'' []])]
      (TRef ''FsFile'' [])
      None"

text \<open>namespace Deno, line 544: function \<^verbatim>\<open>cwd\<close>\<close>

definition Deno_cwd :: decl where
  "Deno_cwd =
    DFunction [Export] ''cwd'' [] [] TString None"

text \<open>namespace Deno, line 557: function \<^verbatim>\<open>execPath\<close>\<close>

definition Deno_execPath :: decl where
  "Deno_execPath =
    DFunction [Export] ''execPath'' [] [] TString None"

text \<open>namespace Deno, line 571: function \<^verbatim>\<open>exit\<close>\<close>

definition Deno_exit :: decl where
  "Deno_exit =
    DFunction [Export] ''exit'' [] [Param ''code'' True TNumber] TNever None"

text \<open>namespace Deno, line 586: function \<^verbatim>\<open>fdatasync\<close>\<close>

definition Deno_fdatasync :: decl where
  "Deno_fdatasync =
    DFunction [Export] ''fdatasync'' [] [Param ''rid'' False TNumber] (TRef ''Promise'' [TVoid])
      None"

text \<open>namespace Deno, line 603: function \<^verbatim>\<open>fdatasyncSync\<close>\<close>

definition Deno_fdatasyncSync :: decl where
  "Deno_fdatasyncSync =
    DFunction [Export] ''fdatasyncSync'' [] [Param ''rid'' False TNumber] TVoid None"

text \<open>namespace Deno, line 617: function \<^verbatim>\<open>fstat\<close>\<close>

definition Deno_fstat :: decl where
  "Deno_fstat =
    DFunction [Export] ''fstat'' [] [Param ''rid'' False TNumber]
      (TRef ''Promise'' [TRef ''FileInfo'' []])
      None"

text \<open>namespace Deno, line 632: function \<^verbatim>\<open>fstatSync\<close>\<close>

definition Deno_fstatSync :: decl where
  "Deno_fstatSync =
    DFunction [Export] ''fstatSync'' [] [Param ''rid'' False TNumber] (TRef ''FileInfo'' [])
      None"

text \<open>namespace Deno, line 650: function \<^verbatim>\<open>fsync\<close>\<close>

definition Deno_fsync :: decl where
  "Deno_fsync =
    DFunction [Export] ''fsync'' [] [Param ''rid'' False TNumber] (TRef ''Promise'' [TVoid])
      None"

text \<open>namespace Deno, line 668: function \<^verbatim>\<open>fsyncSync\<close>\<close>

definition Deno_fsyncSync :: decl where
  "Deno_fsyncSync =
    DFunction [Export] ''fsyncSync'' [] [Param ''rid'' False TNumber] TVoid None"

text \<open>namespace Deno, line 708: function \<^verbatim>\<open>ftruncate\<close>\<close>

definition Deno_ftruncate :: decl where
  "Deno_ftruncate =
    DFunction [Export] ''ftruncate'' []
      [Param ''rid'' False TNumber, Param ''len'' True TNumber]
      (TRef ''Promise'' [TVoid])
      None"

text \<open>namespace Deno, line 749: function \<^verbatim>\<open>ftruncateSync\<close>\<close>

definition Deno_ftruncateSync :: decl where
  "Deno_ftruncateSync =
    DFunction [Export] ''ftruncateSync'' []
      [Param ''rid'' False TNumber, Param ''len'' True TNumber]
      TVoid
      None"

text \<open>namespace Deno, line 762: function \<^verbatim>\<open>gid\<close>\<close>

definition Deno_gid :: decl where
  "Deno_gid =
    DFunction [Export] ''gid'' [] [] (TUnion [TNumber, TNull]) None"

text \<open>namespace Deno, line 775: function \<^verbatim>\<open>hostname\<close>\<close>

definition Deno_hostname :: decl where
  "Deno_hostname =
    DFunction [Export] ''hostname'' [] [] TString None"

text \<open>namespace Deno, line 814: function \<^verbatim>\<open>inspect\<close>\<close>

definition Deno_inspect :: decl where
  "Deno_inspect =
    DFunction [Export] ''inspect'' []
      [Param ''value'' False TUnknown, Param ''options'' True (TRef ''InspectOptions'' [])]
      TString
      None"

text \<open>namespace Deno, line 841: function \<^verbatim>\<open>kill\<close>\<close>

definition Deno_kill :: decl where
  "Deno_kill =
    DFunction [Export] ''kill'' []
      [Param ''pid'' False TNumber, Param ''signo'' True (TRef ''Signal'' [])]
      TVoid
      None"

text \<open>namespace Deno, line 854: function \<^verbatim>\<open>link\<close>\<close>

definition Deno_link :: decl where
  "Deno_link =
    DFunction [Export] ''link'' []
      [Param ''oldpath'' False TString, Param ''newpath'' False TString]
      (TRef ''Promise'' [TVoid])
      None"

text \<open>namespace Deno, line 867: function \<^verbatim>\<open>linkSync\<close>\<close>

definition Deno_linkSync :: decl where
  "Deno_linkSync =
    DFunction [Export] ''linkSync'' []
      [Param ''oldpath'' False TString, Param ''newpath'' False TString]
      TVoid
      None"

text \<open>namespace Deno, line 883: function \<^verbatim>\<open>listen\<close>\<close>

definition Deno_listen_1 :: decl where
  "Deno_listen_1 =
    DFunction [Export] ''listen'' []
      [Param ''options'' False
         (TInter
            [TRef ''TcpListenOptions'' [],
             TObj [Prop False ''transport'' True (TStrLit ''tcp'')]])]
      (TRef ''Listener'' [])
      None"

text \<open>namespace Deno, line 898: function \<^verbatim>\<open>listen\<close>\<close>

definition Deno_listen_2 :: decl where
  "Deno_listen_2 =
    DFunction [Export] ''listen'' []
      [Param ''options'' False
         (TInter
            [TRef ''UnixListenOptions'' [],
             TObj [Prop False ''transport'' False (TStrLit ''unix'')]])]
      (TRef ''Listener'' [])
      None"

text \<open>namespace Deno, line 912: function \<^verbatim>\<open>listenTls\<close>\<close>

definition Deno_listenTls :: decl where
  "Deno_listenTls =
    DFunction [Export] ''listenTls'' []
      [Param ''options'' False (TRef ''ListenTlsOptions'' [])]
      (TRef ''TlsListener'' [])
      None"

text \<open>namespace Deno, line 931: function \<^verbatim>\<open>loadavg\<close>\<close>

definition Deno_loadavg :: decl where
  "Deno_loadavg =
    DFunction [Export] ''loadavg'' [] [] (TArray TNumber) None"

text \<open>namespace Deno, line 948: function \<^verbatim>\<open>lstat\<close>\<close>

definition Deno_lstat :: decl where
  "Deno_lstat =
    DFunction [Export] ''lstat'' []
      [Param ''path'' False (TUnion [TString, TRef ''URL'' []])]
      (TRef ''Promise'' [TRef ''FileInfo'' []])
      None"

text \<open>namespace Deno, line 965: function \<^verbatim>\<open>lstatSync\<close>\<close>

definition Deno_lstatSync :: decl where
  "Deno_lstatSync =
    DFunction [Export] ''lstatSync'' []
      [Param ''path'' False (TUnion [TString, TRef ''URL'' []])]
      (TRef ''FileInfo'' [])
      None"

text \<open>namespace Deno, line 988: function \<^verbatim>\<open>makeTempDir\<close>\<close>

definition Deno_makeTempDir :: decl where
  "Deno_makeTempDir =
    DFunction [Export] ''makeTempDir'' []
      [Param ''options'' True (TRef ''MakeTempOptions'' [])]
      (TRef ''Promise'' [TString])
      None"

text \<open>namespace Deno, line 1011: function \<^verbatim>\<open>makeTempDirSync\<close>\<close>

definition Deno_makeTempDirSync :: decl where
  "Deno_makeTempDirSync =
    DFunction [Export] ''makeTempDirSync'' []
      [Param ''options'' True (TRef ''MakeTempOptions'' [])]
      TString
      None"

text \<open>namespace Deno, line 1035: function \<^verbatim>\<open>makeTempFile\<close>\<close>

definition Deno_makeTempFile :: decl where
  "Deno_makeTempFile =
    DFunction [Export] ''makeTempFile'' []
      [Param ''options'' True (TRef ''MakeTempOptions'' [])]
      (TRef ''Promise'' [TString])
      None"

text \<open>namespace Deno, line 1059: function \<^verbatim>\<open>makeTempFileSync\<close>\<close>

definition Deno_makeTempFileSync :: decl where
  "Deno_makeTempFileSync =
    DFunction [Export] ''makeTempFileSync'' []
      [Param ''options'' True (TRef ''MakeTempOptions'' [])]
      TString
      None"

text \<open>namespace Deno, line 1066: function \<^verbatim>\<open>memoryUsage\<close>\<close>

definition Deno_memoryUsage :: decl where
  "Deno_memoryUsage =
    DFunction [Export] ''memoryUsage'' [] [] (TRef ''MemoryUsage'' []) None"

text \<open>namespace Deno, line 1083: function \<^verbatim>\<open>mkdir\<close>\<close>

definition Deno_mkdir :: decl where
  "Deno_mkdir =
    DFunction [Export] ''mkdir'' []
      [Param ''path'' False (TUnion [TString, TRef ''URL'' []]),
       Param ''options'' True (TRef ''MkdirOptions'' [])]
      (TRef ''Promise'' [TVoid])
      None"

text \<open>namespace Deno, line 1100: function \<^verbatim>\<open>mkdirSync\<close>\<close>

definition Deno_mkdirSync :: decl where
  "Deno_mkdirSync =
    DFunction [Export] ''mkdirSync'' []
      [Param ''path'' False (TUnion [TString, TRef ''URL'' []]),
       Param ''options'' True (TRef ''MkdirOptions'' [])]
      TVoid
      None"

text \<open>namespace Deno, line 1119: function \<^verbatim>\<open>open\<close>\<close>

definition Deno_open :: decl where
  "Deno_open =
    DFunction [Export] ''open'' []
      [Param ''path'' False (TUnion [TString, TRef ''URL'' []]),
       Param ''options'' True (TRef ''OpenOptions'' [])]
      (TRef ''Promise'' [TRef ''FsFile'' []])
      None"

text \<open>namespace Deno, line 1138: function \<^verbatim>\<open>openSync\<close>\<close>

definition Deno_openSync :: decl where
  "Deno_openSync =
    DFunction [Export] ''openSync'' []
      [Param ''path'' False (TUnion [TString, TRef ''URL'' []]),
       Param ''options'' True (TRef ''OpenOptions'' [])]
      (TRef ''FsFile'' [])
      None"

text \<open>namespace Deno, line 1153: function \<^verbatim>\<open>osRelease\<close>\<close>

definition Deno_osRelease :: decl where
  "Deno_osRelease =
    DFunction [Export] ''osRelease'' [] [] TString None"

text \<open>namespace Deno, line 1166: function \<^verbatim>\<open>osUptime\<close>\<close>

definition Deno_osUptime :: decl where
  "Deno_osUptime =
    DFunction [Export] ''osUptime'' [] [] TNumber None"

text \<open>namespace Deno, line 1195: function \<^verbatim>\<open>read\<close>\<close>

definition Deno_read :: decl where
  "Deno_read =
    DFunction [Export] ''read'' []
      [Param ''rid'' False TNumber, Param ''buffer'' False (TRef ''Uint8Array'' [])]
      (TRef ''Promise'' [TUnion [TNumber, TNull]])
      None"

text \<open>namespace Deno, line 1213: function \<^verbatim>\<open>readDir\<close>\<close>

definition Deno_readDir :: decl where
  "Deno_readDir =
    DFunction [Export] ''readDir'' []
      [Param ''path'' False (TUnion [TString, TRef ''URL'' []])]
      (TRef ''AsyncIterable'' [TRef ''DirEntry'' []])
      None"

text \<open>namespace Deno, line 1231: function \<^verbatim>\<open>readDirSync\<close>\<close>

definition Deno_readDirSync :: decl where
  "Deno_readDirSync =
    DFunction [Export] ''readDirSync'' []
      [Param ''path'' False (TUnion [TString, TRef ''URL'' []])]
      (TRef ''Iterable'' [TRef ''DirEntry'' []])
      None"

text \<open>namespace Deno, line 1248: function \<^verbatim>\<open>readFile\<close>\<close>

definition Deno_readFile :: decl where
  "Deno_readFile =
    DFunction [Export] ''readFile'' []
      [Param ''path'' False (TUnion [TString, TRef ''URL'' []]),
       Param ''options'' True (TRef ''ReadFileOptions'' [])]
      (TRef ''Promise'' [TRef ''Uint8Array'' []])
      None"

text \<open>namespace Deno, line 1265: function \<^verbatim>\<open>readFileSync\<close>\<close>

definition Deno_readFileSync :: decl where
  "Deno_readFileSync =
    DFunction [Export] ''readFileSync'' []
      [Param ''path'' False (TUnion [TString, TRef ''URL'' []])]
      (TRef ''Uint8Array'' [])
      None"

text \<open>namespace Deno, line 1281: function \<^verbatim>\<open>readLink\<close>\<close>

definition Deno_readLink :: decl where
  "Deno_readLink =
    DFunction [Export] ''readLink'' []
      [Param ''path'' False (TUnion [TString, TRef ''URL'' []])]
      (TRef ''Promise'' [TString])
      None"

text \<open>namespace Deno, line 1298: function \<^verbatim>\<open>readLinkSync\<close>\<close>

definition Deno_readLinkSync :: decl where
  "Deno_readLinkSync =
    DFunction [Export] ''readLinkSync'' []
      [Param ''path'' False (TUnion [TString, TRef ''URL'' []])]
      TString
      None"

text \<open>namespace Deno, line 1330: function \<^verbatim>\<open>readSync\<close>\<close>

definition Deno_readSync :: decl where
  "Deno_readSync =
    DFunction [Export] ''readSync'' []
      [Param ''rid'' False TNumber, Param ''buffer'' False (TRef ''Uint8Array'' [])]
      (TUnion [TNumber, TNull])
      None"

text \<open>namespace Deno, line 1345: function \<^verbatim>\<open>readTextFile\<close>\<close>

definition Deno_readTextFile :: decl where
  "Deno_readTextFile =
    DFunction [Export] ''readTextFile'' []
      [Param ''path'' False (TUnion [TString, TRef ''URL'' []]),
       Param ''options'' True (TRef ''ReadFileOptions'' [])]
      (TRef ''Promise'' [TString])
      None"

text \<open>namespace Deno, line 1360: function \<^verbatim>\<open>readTextFileSync\<close>\<close>

definition Deno_readTextFileSync :: decl where
  "Deno_readTextFileSync =
    DFunction [Export] ''readTextFileSync'' []
      [Param ''path'' False (TUnion [TString, TRef ''URL'' []])]
      TString
      None"

text \<open>namespace Deno, line 1381: function \<^verbatim>\<open>realPath\<close>\<close>

definition Deno_realPath :: decl where
  "Deno_realPath =
    DFunction [Export] ''realPath'' []
      [Param ''path'' False (TUnion [TString, TRef ''URL'' []])]
      (TRef ''Promise'' [TString])
      None"

text \<open>namespace Deno, line 1403: function \<^verbatim>\<open>realPathSync\<close>\<close>

definition Deno_realPathSync :: decl where
  "Deno_realPathSync =
    DFunction [Export] ''realPathSync'' []
      [Param ''path'' False (TUnion [TString, TRef ''URL'' []])]
      TString
      None"

text \<open>namespace Deno, line 1420: function \<^verbatim>\<open>remove\<close>\<close>

definition Deno_remove :: decl where
  "Deno_remove =
    DFunction [Export] ''remove'' []
      [Param ''path'' False (TUnion [TString, TRef ''URL'' []]),
       Param ''options'' True (TRef ''RemoveOptions'' [])]
      (TRef ''Promise'' [TVoid])
      None"

text \<open>namespace Deno, line 1437: function \<^verbatim>\<open>removeSync\<close>\<close>

definition Deno_removeSync :: decl where
  "Deno_removeSync =
    DFunction [Export] ''removeSync'' []
      [Param ''path'' False (TUnion [TString, TRef ''URL'' []]),
       Param ''options'' True (TRef ''RemoveOptions'' [])]
      TVoid
      None"

text \<open>namespace Deno, line 1459: function \<^verbatim>\<open>rename\<close>\<close>

definition Deno_rename :: decl where
  "Deno_rename =
    DFunction [Export] ''rename'' []
      [Param ''oldpath'' False (TUnion [TString, TRef ''URL'' []]),
       Param ''newpath'' False (TUnion [TString, TRef ''URL'' []])]
      (TRef ''Promise'' [TVoid])
      None"

text \<open>namespace Deno, line 1480: function \<^verbatim>\<open>renameSync\<close>\<close>

definition Deno_renameSync :: decl where
  "Deno_renameSync =
    DFunction [Export] ''renameSync'' []
      [Param ''oldpath'' False (TUnion [TString, TRef ''URL'' []]),
       Param ''newpath'' False (TUnion [TString, TRef ''URL'' []])]
      TVoid
      None"

text \<open>namespace Deno, line 1505: function \<^verbatim>\<open>resolveDns\<close>\<close>

definition Deno_resolveDns_1 :: decl where
  "Deno_resolveDns_1 =
    DFunction [Export] ''resolveDns'' []
      [Param ''query'' False TString,
       Param ''recordType'' False
         (TUnion
            [TStrLit ''A'',
             TStrLit ''AAAA'',
             TStrLit ''ANAME'',
             TStrLit ''CNAME'',
             TStrLit ''NS'',
             TStrLit ''PTR'']),
       Param ''options'' True (TRef ''ResolveDnsOptions'' [])]
      (TRef ''Promise'' [TArray TString])
      None"

text \<open>namespace Deno, line 1530: function \<^verbatim>\<open>resolveDns\<close>\<close>

definition Deno_resolveDns_2 :: decl where
  "Deno_resolveDns_2 =
    DFunction [Export] ''resolveDns'' []
      [Param ''query'' False TString,
       Param ''recordType'' False (TStrLit ''CAA''),
       Param ''options'' True (TRef ''ResolveDnsOptions'' [])]
      (TRef ''Promise'' [TArray (TRef ''CAARecord'' [])])
      None"

text \<open>namespace Deno, line 1555: function \<^verbatim>\<open>resolveDns\<close>\<close>

definition Deno_resolveDns_3 :: decl where
  "Deno_resolveDns_3 =
    DFunction [Export] ''resolveDns'' []
      [Param ''query'' False TString,
       Param ''recordType'' False (TStrLit ''MX''),
       Param ''options'' True (TRef ''ResolveDnsOptions'' [])]
      (TRef ''Promise'' [TArray (TRef ''MXRecord'' [])])
      None"

text \<open>namespace Deno, line 1580: function \<^verbatim>\<open>resolveDns\<close>\<close>

definition Deno_resolveDns_4 :: decl where
  "Deno_resolveDns_4 =
    DFunction [Export] ''resolveDns'' []
      [Param ''query'' False TString,
       Param ''recordType'' False (TStrLit ''NAPTR''),
       Param ''options'' True (TRef ''ResolveDnsOptions'' [])]
      (TRef ''Promise'' [TArray (TRef ''NAPTRRecord'' [])])
      None"

text \<open>namespace Deno, line 1605: function \<^verbatim>\<open>resolveDns\<close>\<close>

definition Deno_resolveDns_5 :: decl where
  "Deno_resolveDns_5 =
    DFunction [Export] ''resolveDns'' []
      [Param ''query'' False TString,
       Param ''recordType'' False (TStrLit ''SOA''),
       Param ''options'' True (TRef ''ResolveDnsOptions'' [])]
      (TRef ''Promise'' [TArray (TRef ''SOARecord'' [])])
      None"

text \<open>namespace Deno, line 1630: function \<^verbatim>\<open>resolveDns\<close>\<close>

definition Deno_resolveDns_6 :: decl where
  "Deno_resolveDns_6 =
    DFunction [Export] ''resolveDns'' []
      [Param ''query'' False TString,
       Param ''recordType'' False (TStrLit ''SRV''),
       Param ''options'' True (TRef ''ResolveDnsOptions'' [])]
      (TRef ''Promise'' [TArray (TRef ''SRVRecord'' [])])
      None"

text \<open>namespace Deno, line 1655: function \<^verbatim>\<open>resolveDns\<close>\<close>

definition Deno_resolveDns_7 :: decl where
  "Deno_resolveDns_7 =
    DFunction [Export] ''resolveDns'' []
      [Param ''query'' False TString,
       Param ''recordType'' False (TStrLit ''TXT''),
       Param ''options'' True (TRef ''ResolveDnsOptions'' [])]
      (TRef ''Promise'' [TArray (TArray TString)])
      None"

text \<open>namespace Deno, line 1680: function \<^verbatim>\<open>resolveDns\<close>\<close>

definition Deno_resolveDns_8 :: decl where
  "Deno_resolveDns_8 =
    DFunction [Export] ''resolveDns'' []
      [Param ''query'' False TString,
       Param ''recordType'' False (TRef ''RecordType'' []),
       Param ''options'' True (TRef ''ResolveDnsOptions'' [])]
      (TRef ''Promise''
         [TUnion
            [TArray TString,
             TArray (TRef ''CAARecord'' []),
             TArray (TRef ''MXRecord'' []),
             TArray (TRef ''NAPTRRecord'' []),
             TArray (TRef ''SOARecord'' []),
             TArray (TRef ''SRVRecord'' []),
             TArray (TArray TString)]])
      None"

text \<open>namespace Deno, line 1690: class \<^verbatim>\<open>Process\<close>\<close>

definition Deno_Process :: decl where
  "Deno_Process =
    DClass [Export] ''Process''
      [TParam ''T'' (Some (TRef ''Deno.RunOptions'' [])) (Some (TRef ''Deno.RunOptions'' []))]
      None
      [TRef ''Deno.Process'' [TRef ''T'' []]]
      [CField [] ''#private'' False None None,
       CGetter ''rid'' TNumber None,
       CGetter ''pid'' TNumber None,
       CGetter ''stdin''
         (TCond
            (TIndexed (TRef ''T'' []) (TStrLit ''stdin''))
            (TStrLit ''piped'')
            (TInter
               [TRef ''Deno.Writer'' [],
                TRef ''Deno.Closer'' [],
                TObj
                  [Prop False ''writable'' False
                     (TImport ''stream/web'' ''WritableStream'' [TRef ''Uint8Array'' []])]])
            (TUnion
               [TInter
                  [TRef ''Deno.Writer'' [],
                   TRef ''Deno.Closer'' [],
                   TObj
                     [Prop False ''writable'' False
                        (TImport ''stream/web'' ''WritableStream'' [TRef ''Uint8Array'' []])]],
                TNull]))
         None,
       CGetter ''stdout''
         (TCond
            (TIndexed (TRef ''T'' []) (TStrLit ''stdout''))
            (TStrLit ''piped'')
            (TInter
               [TRef ''Deno.Reader'' [],
                TRef ''Deno.Closer'' [],
                TObj
                  [Prop False ''readable'' False
                     (TImport ''stream/web'' ''ReadableStream'' [TRef ''Uint8Array'' []])]])
            (TUnion
               [TInter
                  [TRef ''Deno.Reader'' [],
                   TRef ''Deno.Closer'' [],
                   TObj
                     [Prop False ''readable'' False
                        (TImport ''stream/web'' ''ReadableStream'' [TRef ''Uint8Array'' []])]],
                TNull]))
         None,
       CGetter ''stderr''
         (TCond
            (TIndexed (TRef ''T'' []) (TStrLit ''stderr''))
            (TStrLit ''piped'')
            (TInter
               [TRef ''Deno.Reader'' [],
                TRef ''Deno.Closer'' [],
                TObj
                  [Prop False ''readable'' False
                     (TImport ''stream/web'' ''ReadableStream'' [TRef ''Uint8Array'' []])]])
            (TUnion
               [TInter
                  [TRef ''Deno.Reader'' [],
                   TRef ''Deno.Closer'' [],
                   TObj
                     [Prop False ''readable'' False
                        (TImport ''stream/web'' ''ReadableStream'' [TRef ''Uint8Array'' []])]],
                TNull]))
         None,
       CMethod [] ''status'' [] (TRef ''Promise'' [TRef ''Deno.ProcessStatus'' []]) None,
       CMethod [] ''output'' [] (TRef ''Promise'' [TRef ''Uint8Array'' []]) None,
       CMethod [] ''stderrOutput'' [] (TRef ''Promise'' [TRef ''Uint8Array'' []]) None,
       CMethod [] ''close'' [] TVoid None,
       CMethod [] ''kill'' [Param ''signo'' True TString] TVoid None]"

text \<open>namespace Deno, line 1766: function \<^verbatim>\<open>run\<close>\<close>

definition Deno_run_1 :: decl where
  "Deno_run_1 =
    DFunction [Export] ''run''
      [TParam ''T'' (Some (TRef ''RunOptions'' [])) (Some (TRef ''RunOptions'' []))]
      [Param ''opt'' False (TRef ''T'' [])]
      (TRef ''Process'' [TRef ''T'' []])
      None"

text \<open>namespace Deno, line 1818: function \<^verbatim>\<open>run\<close>\<close>

definition Deno_run_2 :: decl where
  "Deno_run_2 =
    DFunction [Export] ''run''
      [TParam ''T'' (Some (TRef ''UnstableRunOptions'' []))
         (Some (TRef ''UnstableRunOptions'' []))]
      [Param ''opt'' False (TRef ''T'' [])]
      (TRef ''Process'' [TRef ''T'' []])
      None"

text \<open>namespace Deno, line 1819: type \<^verbatim>\<open>UnstableRunOptions\<close>\<close>

definition Deno_UnstableRunOptions :: decl where
  "Deno_UnstableRunOptions =
    DType [Export] ''UnstableRunOptions''
      (TInter
         [TRef ''RunOptions'' [],
          TObj
            [Prop False ''clearEnv'' True TBoolean,
             Prop False ''gid'' True TNumber,
             Prop False ''uid'' True TNumber]])"

text \<open>namespace Deno, line 1837: function \<^verbatim>\<open>shutdown\<close>\<close>

definition Deno_shutdown :: decl where
  "Deno_shutdown =
    DFunction [Export] ''shutdown'' [] [Param ''rid'' False TNumber] (TRef ''Promise'' [TVoid])
      None"

text \<open>namespace Deno, line 1853: function \<^verbatim>\<open>stat\<close>\<close>

definition Deno_stat :: decl where
  "Deno_stat =
    DFunction [Export] ''stat'' []
      [Param ''path'' False (TUnion [TString, TRef ''URL'' []])]
      (TRef ''Promise'' [TRef ''FileInfo'' []])
      None"

text \<open>namespace Deno, line 1869: function \<^verbatim>\<open>statSync\<close>\<close>

definition Deno_statSync :: decl where
  "Deno_statSync =
    DFunction [Export] ''statSync'' []
      [Param ''path'' False (TUnion [TString, TRef ''URL'' []])]
      (TRef ''FileInfo'' [])
      None"

text \<open>namespace Deno, line 1885: function \<^verbatim>\<open>symlink\<close>\<close>

definition Deno_symlink :: decl where
  "Deno_symlink =
    DFunction [Export] ''symlink'' []
      [Param ''oldpath'' False (TUnion [TString, TRef ''URL'' []]),
       Param ''newpath'' False (TUnion [TString, TRef ''URL'' []]),
       Param ''options'' True (TRef ''SymlinkOptions'' [])]
      (TRef ''Promise'' [TVoid])
      None"

text \<open>namespace Deno, line 1901: function \<^verbatim>\<open>symlinkSync\<close>\<close>

definition Deno_symlinkSync :: decl where
  "Deno_symlinkSync =
    DFunction [Export] ''symlinkSync'' []
      [Param ''oldpath'' False (TUnion [TString, TRef ''URL'' []]),
       Param ''newpath'' False (TUnion [TString, TRef ''URL'' []]),
       Param ''options'' True (TRef ''SymlinkOptions'' [])]
      TVoid
      None"

text \<open>namespace Deno, line 1938: function \<^verbatim>\<open>test\<close>\<close>

definition Deno_test_1 :: decl where
  "Deno_test_1 =
    DFunction [Export] ''test'' [] [Param ''t'' False (TRef ''TestDefinition'' [])] TVoid None"

text \<open>namespace Deno, line 1961: function \<^verbatim>\<open>test\<close>\<close>

definition Deno_test_2 :: decl where
  "Deno_test_2 =
    DFunction [Export] ''test'' []
      [Param ''name'' False TString,
       Param ''fn'' False
         (TFun
            [Param ''t'' False (TRef ''TestContext'' [])]
            (TUnion [TVoid, TRef ''Promise'' [TVoid]]))]
      TVoid
      None"

text \<open>namespace Deno, line 1984: function \<^verbatim>\<open>test\<close>\<close>

definition Deno_test_3 :: decl where
  "Deno_test_3 =
    DFunction [Export] ''test'' []
      [Param ''fn'' False
         (TFun
            [Param ''t'' False (TRef ''TestContext'' [])]
            (TUnion [TVoid, TRef ''Promise'' [TVoid]]))]
      TVoid
      None"

text \<open>namespace Deno, line 2007: function \<^verbatim>\<open>test\<close>\<close>

definition Deno_test_4 :: decl where
  "Deno_test_4 =
    DFunction [Export] ''test'' []
      [Param ''name'' False TString,
       Param ''options'' False
         (TRef ''Omit''
            [TRef ''TestDefinition'' [], TUnion [TStrLit ''fn'', TStrLit ''name'']]),
       Param ''fn'' False
         (TFun
            [Param ''t'' False (TRef ''TestContext'' [])]
            (TUnion [TVoid, TRef ''Promise'' [TVoid]]))]
      TVoid
      None"

text \<open>namespace Deno, line 2042: function \<^verbatim>\<open>test\<close>\<close>

definition Deno_test_5 :: decl where
  "Deno_test_5 =
    DFunction [Export] ''test'' []
      [Param ''options'' False (TRef ''Omit'' [TRef ''TestDefinition'' [], TStrLit ''fn'']),
       Param ''fn'' False
         (TFun
            [Param ''t'' False (TRef ''TestContext'' [])]
            (TUnion [TVoid, TRef ''Promise'' [TVoid]]))]
      TVoid
      None"

text \<open>namespace Deno, line 2071: function \<^verbatim>\<open>test\<close>\<close>

definition Deno_test_6 :: decl where
  "Deno_test_6 =
    DFunction [Export] ''test'' []
      [Param ''options'' False
         (TRef ''Omit''
            [TRef ''TestDefinition'' [], TUnion [TStrLit ''fn'', TStrLit ''name'']]),
       Param ''fn'' False
         (TFun
            [Param ''t'' False (TRef ''TestContext'' [])]
            (TUnion [TVoid, TRef ''Promise'' [TVoid]]))]
      TVoid
      None"

text \<open>namespace Deno, line 2096: function \<^verbatim>\<open>truncate\<close>\<close>

definition Deno_truncate :: decl where
  "Deno_truncate =
    DFunction [Export] ''truncate'' []
      [Param ''name'' False TString, Param ''len'' True TNumber]
      (TRef ''Promise'' [TVoid])
      None"

text \<open>namespace Deno, line 2123: function \<^verbatim>\<open>truncateSync\<close>\<close>

definition Deno_truncateSync :: decl where
  "Deno_truncateSync =
    DFunction [Export] ''truncateSync'' []
      [Param ''name'' False TString, Param ''len'' True TNumber]
      TVoid
      None"

text \<open>namespace Deno, line 2136: function \<^verbatim>\<open>uid\<close>\<close>

definition Deno_uid :: decl where
  "Deno_uid =
    DFunction [Export] ''uid'' [] [] (TUnion [TNumber, TNull]) None"

text \<open>namespace Deno, line 2177: function \<^verbatim>\<open>watchFs\<close>\<close>

definition Deno_watchFs :: decl where
  "Deno_watchFs =
    DFunction [Export] ''watchFs'' []
      [Param ''paths'' False (TUnion [TString, TArray TString]),
       Param ''options'' True (TObj [Prop False ''recursive'' False TBoolean])]
      (TRef ''FsWatcher'' [])
      None"

text \<open>namespace Deno, line 2200: function \<^verbatim>\<open>write\<close>\<close>

definition Deno_write :: decl where
  "Deno_write =
    DFunction [Export] ''write'' []
      [Param ''rid'' False TNumber, Param ''data'' False (TRef ''Uint8Array'' [])]
      (TRef ''Promise'' [TNumber])
      None"

text \<open>namespace Deno, line 2220: function \<^verbatim>\<open>writeFile\<close>\<close>

definition Deno_writeFile :: decl where
  "Deno_writeFile =
    DFunction [Export] ''writeFile'' []
      [Param ''path'' False (TUnion [TString, TRef ''URL'' []]),
       Param ''data'' False
         (TUnion [TRef ''Uint8Array'' [], TRef ''ReadableStream'' [TRef ''Uint8Array'' []]]),
       Param ''options'' True (TRef ''WriteFileOptions'' [])]
      (TRef ''Promise'' [TVoid])
      None"

text \<open>namespace Deno, line 2240: function \<^verbatim>\<open>writeFileSync\<close>\<close>

definition Deno_writeFileSync :: decl where
  "Deno_writeFileSync =
    DFunction [Export] ''writeFileSync'' []
      [Param ''path'' False (TUnion [TString, TRef ''URL'' []]),
       Param ''data'' False (TRef ''Uint8Array'' []),
       Param ''options'' True (TRef ''WriteFileOptions'' [])]
      TVoid
      None"

text \<open>namespace Deno, line 2266: function \<^verbatim>\<open>writeSync\<close>\<close>

definition Deno_writeSync :: decl where
  "Deno_writeSync =
    DFunction [Export] ''writeSync'' []
      [Param ''rid'' False TNumber, Param ''data'' False (TRef ''Uint8Array'' [])]
      TNumber
      None"

text \<open>namespace Deno, line 2281: function \<^verbatim>\<open>writeTextFile\<close>\<close>

definition Deno_writeTextFile :: decl where
  "Deno_writeTextFile =
    DFunction [Export] ''writeTextFile'' []
      [Param ''path'' False (TUnion [TString, TRef ''URL'' []]),
       Param ''data'' False (TUnion [TString, TRef ''ReadableStream'' [TString]]),
       Param ''options'' True (TRef ''WriteFileOptions'' [])]
      (TRef ''Promise'' [TVoid])
      None"

text \<open>namespace Deno, line 2296: function \<^verbatim>\<open>writeTextFileSync\<close>\<close>

definition Deno_writeTextFileSync :: decl where
  "Deno_writeTextFileSync =
    DFunction [Export] ''writeTextFileSync'' []
      [Param ''path'' False (TUnion [TString, TRef ''URL'' []]),
       Param ''data'' False TString,
       Param ''options'' True (TRef ''WriteFileOptions'' [])]
      TVoid
      None"

text \<open>namespace Deno, line 2318: const \<^verbatim>\<open>args\<close>\<close>

definition Deno_args :: decl where
  "Deno_args =
    DConst [Export] ''args'' (TArray TString) None"

text \<open>namespace Deno, line 2320: type \<^verbatim>\<open>Addr\<close>\<close>

definition Deno_Addr :: decl where
  "Deno_Addr =
    DType [Export] ''Addr'' (TUnion [TRef ''NetAddr'' [], TRef ''UnixAddr'' []])"

text \<open>namespace Deno, line 2328: interface \<^verbatim>\<open>Closer\<close>\<close>

definition Deno_Closer :: decl where
  "Deno_Closer =
    DInterface [Export] ''Closer'' [] [Method ''close'' False [] TVoid]"

text \<open>namespace Deno, line 2334: interface \<^verbatim>\<open>Conn\<close>\<close>

definition Deno_Conn :: decl where
  "Deno_Conn =
    DInterface [Export] ''Conn''
      [TRef ''Reader'' [], TRef ''Writer'' [], TRef ''Closer'' []]
      [Prop True ''localAddr'' False (TRef ''Addr'' []),
       Prop True ''remoteAddr'' False (TRef ''Addr'' []),
       Prop True ''rid'' False TNumber,
       Prop True ''readable'' False (TRef ''ReadableStream'' [TRef ''Uint8Array'' []]),
       Prop True ''writable'' False (TRef ''WritableStream'' [TRef ''Uint8Array'' []]),
       Method ''closeWrite'' False [] (TRef ''Promise'' [TVoid]),
       Method ''ref'' False [] TVoid,
       Method ''unref'' False [] TVoid]"

text \<open>namespace Deno, line 2366: interface \<^verbatim>\<open>ConnectOptions\<close>\<close>

definition Deno_ConnectOptions :: decl where
  "Deno_ConnectOptions =
    DInterface [Export] ''ConnectOptions'' []
      [Prop False ''port'' False TNumber,
       Prop False ''hostname'' True TString,
       Prop False ''transport'' True (TStrLit ''tcp'')]"

text \<open>namespace Deno, line 2380: interface \<^verbatim>\<open>ConnectTlsOptions\<close>\<close>

definition Deno_ConnectTlsOptions_1 :: decl where
  "Deno_ConnectTlsOptions_1 =
    DInterface [Export] ''ConnectTlsOptions'' []
      [Prop False ''port'' False TNumber,
       Prop False ''hostname'' True TString,
       Prop False ''certFile'' True TString,
       Prop False ''caCerts'' True (TArray TString)]"

text \<open>namespace Deno, line 2410: interface \<^verbatim>\<open>ConnectTlsOptions\<close>\<close>

definition Deno_ConnectTlsOptions_2 :: decl where
  "Deno_ConnectTlsOptions_2 =
    DInterface [Export] ''ConnectTlsOptions'' []
      [Prop False ''certChain'' True TString,
       Prop False ''privateKey'' True TString,
       Prop False ''alpnProtocols'' True (TArray TString)]"

text \<open>namespace Deno, line 2439: interface \<^verbatim>\<open>DirEntry\<close>\<close>

definition Deno_DirEntry :: decl where
  "Deno_DirEntry =
    DInterface [Export] ''DirEntry'' []
      [Prop False ''name'' False TString,
       Prop False ''isFile'' False TBoolean,
       Prop False ''isDirectory'' False TBoolean,
       Prop False ''isSymlink'' False TBoolean]"

text \<open>namespace Deno, line 2471: interface \<^verbatim>\<open>EnvPermissionDescriptor\<close>\<close>

definition Deno_EnvPermissionDescriptor :: decl where
  "Deno_EnvPermissionDescriptor =
    DInterface [Export] ''EnvPermissionDescriptor'' []
      [Prop False ''name'' False (TStrLit ''env''), Prop False ''variable'' True TString]"

text \<open>namespace Deno, line 2486: interface \<^verbatim>\<open>FfiPermissionDescriptor\<close>\<close>

definition Deno_FfiPermissionDescriptor :: decl where
  "Deno_FfiPermissionDescriptor =
    DInterface [Export] ''FfiPermissionDescriptor'' []
      [Prop False ''name'' False (TStrLit ''ffi''),
       Prop False ''path'' True (TUnion [TString, TRef ''URL'' []])]"

text \<open>namespace Deno, line 2500: interface \<^verbatim>\<open>SysPermissionDescriptor\<close>\<close>

definition Deno_SysPermissionDescriptor :: decl where
  "Deno_SysPermissionDescriptor =
    DInterface [Export] ''SysPermissionDescriptor'' []
      [Prop False ''name'' False (TStrLit ''sys''),
       Prop False ''kind'' True
         (TUnion
            [TStrLit ''loadavg'',
             TStrLit ''hostname'',
             TStrLit ''systemMemoryInfo'',
             TStrLit ''networkInterfaces'',
             TStrLit ''osRelease'',
             TStrLit ''osUptime'',
             TStrLit ''uid'',
             TStrLit ''gid''])]"

text \<open>namespace Deno, line 2520: interface \<^verbatim>\<open>Env\<close>\<close>

definition Deno_Env :: decl where
  "Deno_Env =
    DInterface [Export] ''Env'' []
      [Method ''get'' False [Param ''key'' False TString] (TUnion [TString, TUndefined]),
       Method ''set'' False [Param ''key'' False TString, Param ''value'' False TString] TVoid,
       Method ''delete'' False [Param ''key'' False TString] TVoid,
       Method ''has'' False [Param ''key'' False TString] TBoolean,
       Method ''toObject'' False [] (TObj [IndexSig ''index'' TString TString])]"

text \<open>namespace Deno, line 2602: interface \<^verbatim>\<open>FileInfo\<close>\<close>

definition Deno_FileInfo :: decl where
  "Deno_FileInfo =
    DInterface [Export] ''FileInfo'' []
      [Prop False ''isFile'' False TBoolean,
       Prop False ''isDirectory'' False TBoolean,
       Prop False ''isSymlink'' False TBoolean,
       Prop False ''size'' False TNumber,
       Prop False ''mtime'' False (TUnion [TRef ''Date'' [], TNull]),
       Prop False ''atime'' False (TUnion [TRef ''Date'' [], TNull]),
       Prop False ''birthtime'' False (TUnion [TRef ''Date'' [], TNull]),
       Prop False ''dev'' False TNumber,
       Prop False ''ino'' False (TUnion [TNumber, TNull]),
       Prop False ''mode'' False (TUnion [TNumber, TNull]),
       Prop False ''nlink'' False (TUnion [TNumber, TNull]),
       Prop False ''uid'' False (TUnion [TNumber, TNull]),
       Prop False ''gid'' False (TUnion [TNumber, TNull]),
       Prop False ''rdev'' False (TUnion [TNumber, TNull]),
       Prop False ''blksize'' False (TUnion [TNumber, TNull]),
       Prop False ''blocks'' False (TUnion [TNumber, TNull])]"

text \<open>namespace Deno, line 2697: interface \<^verbatim>\<open>FsEvent\<close>\<close>

definition Deno_FsEvent :: decl where
  "Deno_FsEvent =
    DInterface [Export] ''FsEvent'' []
      [Prop False ''kind'' False
         (TUnion
            [TStrLit ''any'',
             TStrLit ''access'',
             TStrLit ''create'',
             TStrLit ''modify'',
             TStrLit ''remove'',
             TStrLit ''other'']),
       Prop False ''paths'' False (TArray TString),
       Prop False ''flag'' True (TRef ''FsEventFlag'' [])]"

text \<open>namespace Deno, line 2719: type \<^verbatim>\<open>FsEventFlag\<close>\<close>

definition Deno_FsEventFlag :: decl where
  "Deno_FsEventFlag =
    DType [Export] ''FsEventFlag'' (TStrLit ''rescan'')"

text \<open>namespace Deno, line 2728: interface \<^verbatim>\<open>FsWatcher\<close>\<close>

definition Deno_FsWatcher :: decl where
  "Deno_FsWatcher =
    DInterface [Export] ''FsWatcher''
      [TRef ''AsyncIterable'' [TRef ''FsEvent'' []]]
      [Prop True ''rid'' False TNumber,
       Method ''close'' False [] TVoid,
       Method ''return'' True [Param ''value'' True TAny]
         (TRef ''Promise'' [TRef ''IteratorResult'' [TRef ''FsEvent'' []]]),
       Method ''[Symbol.asyncIterator]'' False []
         (TRef ''AsyncIterableIterator'' [TRef ''FsEvent'' []])]"

text \<open>namespace Deno, line 2751: interface \<^verbatim>\<open>HrtimePermissionDescriptor\<close>\<close>

definition Deno_HrtimePermissionDescriptor :: decl where
  "Deno_HrtimePermissionDescriptor =
    DInterface [Export] ''HrtimePermissionDescriptor'' []
      [Prop False ''name'' False (TStrLit ''hrtime'')]"

text \<open>namespace Deno, line 2760: interface \<^verbatim>\<open>InspectOptions\<close>\<close>

definition Deno_InspectOptions :: decl where
  "Deno_InspectOptions =
    DInterface [Export] ''InspectOptions'' []
      [Prop False ''colors'' True TBoolean,
       Prop False ''compact'' True TBoolean,
       Prop False ''depth'' True TNumber,
       Prop False ''iterableLimit'' True TNumber,
       Prop False ''showProxy'' True TBoolean,
       Prop False ''sorted'' True TBoolean,
       Prop False ''trailingComma'' True TBoolean,
       Prop False ''getters'' True TBoolean,
       Prop False ''showHidden'' True TBoolean,
       Prop False ''strAbbreviateSize'' True TNumber]"

text \<open>namespace Deno, line 2827: interface \<^verbatim>\<open>Listener\<close>\<close>

definition Deno_Listener :: decl where
  "Deno_Listener =
    DInterface [Export] ''Listener''
      [TRef ''AsyncIterable'' [TRef ''Conn'' []]]
      [Prop True ''addr'' False (TRef ''Addr'' []),
       Prop True ''rid'' False TNumber,
       Method ''accept'' False [] (TRef ''Promise'' [TRef ''Conn'' []]),
       Method ''close'' False [] TVoid,
       Method ''[Symbol.asyncIterator]'' False []
         (TRef ''AsyncIterableIterator'' [TRef ''Conn'' []]),
       Method ''ref'' False [] TVoid,
       Method ''unref'' False [] TVoid]"

text \<open>namespace Deno, line 2852: interface \<^verbatim>\<open>ListenOptions\<close>\<close>

definition Deno_ListenOptions :: decl where
  "Deno_ListenOptions =
    DInterface [Export] ''ListenOptions'' []
      [Prop False ''port'' False TNumber, Prop False ''hostname'' True TString]"

text \<open>namespace Deno, line 2869: interface \<^verbatim>\<open>ListenTlsOptions\<close>\<close>

definition Deno_ListenTlsOptions_1 :: decl where
  "Deno_ListenTlsOptions_1 =
    DInterface [Export] ''ListenTlsOptions'' [TRef ''TcpListenOptions'' []]
      [Prop False ''key'' True TString,
       Prop False ''cert'' True TString,
       Prop False ''certFile'' True TString,
       Prop False ''keyFile'' True TString,
       Prop False ''transport'' True (TStrLit ''tcp'')]"

text \<open>namespace Deno, line 2897: interface \<^verbatim>\<open>ListenTlsOptions\<close>\<close>

definition Deno_ListenTlsOptions_2 :: decl where
  "Deno_ListenTlsOptions_2 =
    DInterface [Export] ''ListenTlsOptions'' []
      [Prop False ''alpnProtocols'' True (TArray TString)]"

text \<open>namespace Deno, line 2915: interface \<^verbatim>\<open>MakeTempOptions\<close>\<close>

definition Deno_MakeTempOptions :: decl where
  "Deno_MakeTempOptions =
    DInterface [Export] ''MakeTempOptions'' []
      [Prop False ''dir'' True TString,
       Prop False ''prefix'' True TString,
       Prop False ''suffix'' True TString]"

text \<open>namespace Deno, line 2938: interface \<^verbatim>\<open>MemoryUsage\<close>\<close>

definition Deno_MemoryUsage :: decl where
  "Deno_MemoryUsage =
    DInterface [Export] ''MemoryUsage'' []
      [Prop False ''rss'' False TNumber,
       Prop False ''heapTotal'' False TNumber,
       Prop False ''heapUsed'' False TNumber,
       Prop False ''external'' False TNumber]"

text \<open>namespace Deno, line 2956: interface \<^verbatim>\<open>Metrics\<close>\<close>

definition Deno_Metrics :: decl where
  "Deno_Metrics =
    DInterface [Export] ''Metrics'' [TRef ''OpMetrics'' []]
      [Prop False ''ops'' False (TRef ''Record'' [TString, TRef ''OpMetrics'' []])]"

text \<open>namespace Deno, line 2966: interface \<^verbatim>\<open>MkdirOptions\<close>\<close>

definition Deno_MkdirOptions :: decl where
  "Deno_MkdirOptions =
    DInterface [Export] ''MkdirOptions'' []
      [Prop False ''recursive'' True TBoolean, Prop False ''mode'' True TNumber]"

text \<open>namespace Deno, line 2990: interface \<^verbatim>\<open>NetAddr\<close>\<close>

definition Deno_NetAddr :: decl where
  "Deno_NetAddr =
    DInterface [Export] ''NetAddr'' []
      [Prop False ''transport'' False (TUnion [TStrLit ''tcp'', TStrLit ''udp'']),
       Prop False ''hostname'' False TString,
       Prop False ''port'' False TNumber]"

text \<open>namespace Deno, line 3004: interface \<^verbatim>\<open>NetPermissionDescriptor\<close>\<close>

definition Deno_NetPermissionDescriptor :: decl where
  "Deno_NetPermissionDescriptor =
    DInterface [Export] ''NetPermissionDescriptor'' []
      [Prop False ''name'' False (TStrLit ''net''), Prop False ''host'' True TString]"

text \<open>namespace Deno, line 3021: interface \<^verbatim>\<open>OpenOptions\<close>\<close>

definition Deno_OpenOptions :: decl where
  "Deno_OpenOptions =
    DInterface [Export] ''OpenOptions'' []
      [Prop False ''read'' True TBoolean,
       Prop False ''write'' True TBoolean,
       Prop False ''append'' True TBoolean,
       Prop False ''truncate'' True TBoolean,
       Prop False ''create'' True TBoolean,
       Prop False ''createNew'' True TBoolean,
       Prop False ''mode'' True TNumber]"

text \<open>namespace Deno, line 3084: interface \<^verbatim>\<open>OpMetrics\<close>\<close>

definition Deno_OpMetrics :: decl where
  "Deno_OpMetrics =
    DInterface [Export] ''OpMetrics'' []
      [Prop False ''opsDispatched'' False TNumber,
       Prop False ''opsDispatchedSync'' False TNumber,
       Prop False ''opsDispatchedAsync'' False TNumber,
       Prop False ''opsDispatchedAsyncUnref'' False TNumber,
       Prop False ''opsCompleted'' False TNumber,
       Prop False ''opsCompletedSync'' False TNumber,
       Prop False ''opsCompletedAsync'' False TNumber,
       Prop False ''opsCompletedAsyncUnref'' False TNumber,
       Prop False ''bytesSentControl'' False TNumber,
       Prop False ''bytesSentData'' False TNumber,
       Prop False ''bytesReceived'' False TNumber]"

text \<open>namespace Deno, line 3107: type \<^verbatim>\<open>PermissionDescriptor\<close>\<close>

definition Deno_PermissionDescriptor :: decl where
  "Deno_PermissionDescriptor =
    DType [Export] ''PermissionDescriptor''
      (TUnion
         [TRef ''RunPermissionDescriptor'' [],
          TRef ''ReadPermissionDescriptor'' [],
          TRef ''WritePermissionDescriptor'' [],
          TRef ''NetPermissionDescriptor'' [],
          TRef ''EnvPermissionDescriptor'' [],
          TRef ''SysPermissionDescriptor'' [],
          TRef ''FfiPermissionDescriptor'' [],
          TRef ''HrtimePermissionDescriptor'' []])"

text \<open>namespace Deno, line 3120: type \<^verbatim>\<open>PermissionName\<close>\<close>

definition Deno_PermissionName :: decl where
  "Deno_PermissionName =
    DType [Export] ''PermissionName''
      (TUnion
         [TStrLit ''run'',
          TStrLit ''read'',
          TStrLit ''write'',
          TStrLit ''net'',
          TStrLit ''env'',
          TStrLit ''sys'',
          TStrLit ''ffi'',
          TStrLit ''hrtime''])"

text \<open>namespace Deno, line 3138: type \<^verbatim>\<open>PermissionOptions\<close>\<close>

definition Deno_PermissionOptions :: decl where
  "Deno_PermissionOptions =
    DType [Export] ''PermissionOptions''
      (TUnion [TStrLit ''inherit'', TStrLit ''none'', TRef ''PermissionOptionsObject'' []])"

text \<open>namespace Deno, line 3148: interface \<^verbatim>\<open>PermissionOptionsObject\<close>\<close>

definition Deno_PermissionOptionsObject :: decl where
  "Deno_PermissionOptionsObject =
    DInterface [Export] ''PermissionOptionsObject'' []
      [Prop False ''env'' True (TUnion [TStrLit ''inherit'', TBoolean, TArray TString]),
       Prop False ''sys'' True (TUnion [TStrLit ''inherit'', TBoolean, TArray TString]),
       Prop False ''hrtime'' True (TUnion [TStrLit ''inherit'', TBoolean]),
       Prop False ''net'' True (TUnion [TStrLit ''inherit'', TBoolean, TArray TString]),
       Prop False ''ffi'' True
         (TUnion
            [TStrLit ''inherit'',
             TBoolean,
             TRef ''Array'' [TUnion [TString, TRef ''URL'' []]]]),
       Prop False ''read'' True
         (TUnion
            [TStrLit ''inherit'',
             TBoolean,
             TRef ''Array'' [TUnion [TString, TRef ''URL'' []]]]),
       Prop False ''run'' True
         (TUnion
            [TStrLit ''inherit'',
             TBoolean,
             TRef ''Array'' [TUnion [TString, TRef ''URL'' []]]]),
       Prop False ''write'' True
         (TUnion
            [TStrLit ''inherit'',
             TBoolean,
             TRef ''Array'' [TUnion [TString, TRef ''URL'' []]]])]"

text \<open>namespace Deno, line 3300: type \<^verbatim>\<open>PermissionState\<close>\<close>

definition Deno_PermissionState :: decl where
  "Deno_PermissionState =
    DType [Export] ''PermissionState''
      (TUnion [TStrLit ''granted'', TStrLit ''denied'', TStrLit ''prompt''])"

text \<open>namespace Deno, line 3308: interface \<^verbatim>\<open>PermissionStatusEventMap\<close>\<close>

definition Deno_PermissionStatusEventMap :: decl where
  "Deno_PermissionStatusEventMap =
    DInterface [Export] ''PermissionStatusEventMap'' []
      [Prop False ''change'' False (TRef ''Event'' [])]"

text \<open>namespace Deno, line 3322: type \<^verbatim>\<open>ProcessStatus\<close>\<close>

definition Deno_ProcessStatus :: decl where
  "Deno_ProcessStatus =
    DType [Export] ''ProcessStatus''
      (TUnion
         [TObj
            [Prop False ''success'' False (TBoolLit True),
             Prop False ''code'' False (TNumLit 0),
             Prop False ''signal'' True TUndefined],
          TObj
            [Prop False ''success'' False (TBoolLit False),
             Prop False ''code'' False TNumber,
             Prop False ''signal'' True TNumber]])"

text \<open>namespace Deno, line 3339: interface \<^verbatim>\<open>Reader\<close>\<close>

definition Deno_Reader :: decl where
  "Deno_Reader =
    DInterface [Export] ''Reader'' []
      [Method ''read'' False
         [Param ''p'' False (TRef ''Uint8Array'' [])]
         (TRef ''Promise'' [TUnion [TNumber, TNull]])]"

text \<open>namespace Deno, line 3375: interface \<^verbatim>\<open>ReaderSync\<close>\<close>

definition Deno_ReaderSync :: decl where
  "Deno_ReaderSync =
    DInterface [Export] ''ReaderSync'' []
      [Method ''readSync'' False
         [Param ''p'' False (TRef ''Uint8Array'' [])]
         (TUnion [TNumber, TNull])]"

text \<open>namespace Deno, line 3411: interface \<^verbatim>\<open>ReadFileOptions\<close>\<close>

definition Deno_ReadFileOptions :: decl where
  "Deno_ReadFileOptions =
    DInterface [Export] ''ReadFileOptions'' []
      [Prop False ''signal'' True (TRef ''AbortSignal'' [])]"

text \<open>namespace Deno, line 3431: interface \<^verbatim>\<open>ReadPermissionDescriptor\<close>\<close>

definition Deno_ReadPermissionDescriptor :: decl where
  "Deno_ReadPermissionDescriptor =
    DInterface [Export] ''ReadPermissionDescriptor'' []
      [Prop False ''name'' False (TStrLit ''read''),
       Prop False ''path'' True (TUnion [TString, TRef ''URL'' []])]"

text \<open>namespace Deno, line 3446: interface \<^verbatim>\<open>RemoveOptions\<close>\<close>

definition Deno_RemoveOptions :: decl where
  "Deno_RemoveOptions =
    DInterface [Export] ''RemoveOptions'' [] [Prop False ''recursive'' True TBoolean]"

text \<open>namespace Deno, line 3461: interface \<^verbatim>\<open>ResourceMap\<close>\<close>

definition Deno_ResourceMap :: decl where
  "Deno_ResourceMap =
    DInterface [Export] ''ResourceMap'' [] [IndexSig ''rid'' TNumber TUnknown]"

text \<open>namespace Deno, line 3471: interface \<^verbatim>\<open>RunOptions\<close>\<close>

definition Deno_RunOptions :: decl where
  "Deno_RunOptions =
    DInterface [Export] ''RunOptions'' []
      [Prop False ''cmd'' False
         (TUnion
            [TReadonly (TArray TString),
             TTuple [TUnion [TString, TRef ''URL'' []], TRest (TArray TString)]]),
       Prop False ''cwd'' True TString,
       Prop False ''env'' True (TRef ''Record'' [TString, TString]),
       Prop False ''stdout'' True
         (TUnion [TStrLit ''inherit'', TStrLit ''piped'', TStrLit ''null'', TNumber]),
       Prop False ''stderr'' True
         (TUnion [TStrLit ''inherit'', TStrLit ''piped'', TStrLit ''null'', TNumber]),
       Prop False ''stdin'' True
         (TUnion [TStrLit ''inherit'', TStrLit ''piped'', TStrLit ''null'', TNumber])]"

text \<open>namespace Deno, line 3544: interface \<^verbatim>\<open>RunPermissionDescriptor\<close>\<close>

definition Deno_RunPermissionDescriptor :: decl where
  "Deno_RunPermissionDescriptor =
    DInterface [Export] ''RunPermissionDescriptor'' []
      [Prop False ''name'' False (TStrLit ''run''),
       Prop False ''command'' True (TUnion [TString, TRef ''URL'' []])]"

text \<open>namespace Deno, line 3559: interface \<^verbatim>\<open>Seeker\<close>\<close>

definition Deno_Seeker :: decl where
  "Deno_Seeker =
    DInterface [Export] ''Seeker'' []
      [Method ''seek'' False
         [Param ''offset'' False (TUnion [TNumber, TBigint]),
          Param ''whence'' False (TRef ''SeekMode'' [])]
         (TRef ''Promise'' [TNumber])]"

text \<open>namespace Deno, line 3582: interface \<^verbatim>\<open>SeekerSync\<close>\<close>

definition Deno_SeekerSync :: decl where
  "Deno_SeekerSync =
    DInterface [Export] ''SeekerSync'' []
      [Method ''seekSync'' False
         [Param ''offset'' False TNumber, Param ''whence'' False (TRef ''SeekMode'' [])]
         TNumber]"

text \<open>namespace Deno, line 3599: interface \<^verbatim>\<open>SetRawOptions\<close>\<close>

definition Deno_SetRawOptions :: decl where
  "Deno_SetRawOptions =
    DInterface [Export] ''SetRawOptions'' [] [Prop False ''cbreak'' False TBoolean]"

text \<open>namespace Deno, line 3615: type \<^verbatim>\<open>Signal\<close>\<close>

definition Deno_Signal :: decl where
  "Deno_Signal =
    DType [Export] ''Signal''
      (TUnion
         [TStrLit ''SIGABRT'',
          TStrLit ''SIGALRM'',
          TStrLit ''SIGBREAK'',
          TStrLit ''SIGBUS'',
          TStrLit ''SIGCHLD'',
          TStrLit ''SIGCONT'',
          TStrLit ''SIGEMT'',
          TStrLit ''SIGFPE'',
          TStrLit ''SIGHUP'',
          TStrLit ''SIGILL'',
          TStrLit ''SIGINFO'',
          TStrLit ''SIGINT'',
          TStrLit ''SIGIO'',
          TStrLit ''SIGKILL'',
          TStrLit ''SIGPIPE'',
          TStrLit ''SIGPROF'',
          TStrLit ''SIGPWR'',
          TStrLit ''SIGQUIT'',
          TStrLit ''SIGSEGV'',
          TStrLit ''SIGSTKFLT'',
          TStrLit ''SIGSTOP'',
          TStrLit ''SIGSYS'',
          TStrLit ''SIGTERM'',
          TStrLit ''SIGTRAP'',
          TStrLit ''SIGTSTP'',
          TStrLit ''SIGTTIN'',
          TStrLit ''SIGTTOU'',
          TStrLit ''SIGURG'',
          TStrLit ''SIGUSR1'',
          TStrLit ''SIGUSR2'',
          TStrLit ''SIGVTALRM'',
          TStrLit ''SIGWINCH'',
          TStrLit ''SIGXCPU'',
          TStrLit ''SIGXFSZ''])"

text \<open>namespace Deno, line 3656: interface \<^verbatim>\<open>SymlinkOptions\<close>\<close>

definition Deno_SymlinkOptions :: decl where
  "Deno_SymlinkOptions =
    DInterface [Export] ''SymlinkOptions'' []
      [Prop False ''type'' False (TUnion [TStrLit ''file'', TStrLit ''dir''])]"

text \<open>namespace Deno, line 3665: interface \<^verbatim>\<open>TestDefinition\<close>\<close>

definition Deno_TestDefinition :: decl where
  "Deno_TestDefinition =
    DInterface [Export] ''TestDefinition'' []
      [Prop False ''fn'' False
         (TFun
            [Param ''t'' False (TRef ''TestContext'' [])]
            (TUnion [TVoid, TRef ''Promise'' [TVoid]])),
       Prop False ''name'' False TString,
       Prop False ''ignore'' True TBoolean,
       Prop False ''only'' True TBoolean,
       Prop False ''sanitizeOps'' True TBoolean,
       Prop False ''sanitizeResources'' True TBoolean,
       Prop False ''sanitizeExit'' True TBoolean,
       Prop False ''permissions'' True (TRef ''PermissionOptions'' [])]"

text \<open>namespace Deno, line 3719: interface \<^verbatim>\<open>TestStepDefinition\<close>\<close>

definition Deno_TestStepDefinition :: decl where
  "Deno_TestStepDefinition =
    DInterface [Export] ''TestStepDefinition'' []
      [Prop False ''fn'' False
         (TFun
            [Param ''t'' False (TRef ''TestContext'' [])]
            (TUnion [TVoid, TRef ''Promise'' [TVoid]])),
       Prop False ''name'' False TString,
       Prop False ''ignore'' True TBoolean,
       Prop False ''sanitizeOps'' True TBoolean,
       Prop False ''sanitizeResources'' True TBoolean,
       Prop False ''sanitizeExit'' True TBoolean]"

text \<open>namespace Deno, line 3769: interface \<^verbatim>\<open>TestContext\<close>\<close>

definition Deno_TestContext :: decl where
  "Deno_TestContext =
    DInterface [Export] ''TestContext'' []
      [Prop False ''name'' False TString,
       Prop False ''origin'' False TString,
       Prop False ''parent'' True (TRef ''TestContext'' []),
       Method ''step'' False
         [Param ''definition'' False (TRef ''TestStepDefinition'' [])]
         (TRef ''Promise'' [TBoolean]),
       Method ''step'' False
         [Param ''name'' False TString,
          Param ''fn'' False
            (TFun
               [Param ''t'' False (TRef ''TestContext'' [])]
               (TUnion [TVoid, TRef ''Promise'' [TVoid]]))]
         (TRef ''Promise'' [TBoolean]),
       Method ''step'' False
         [Param ''fn'' False
            (TFun
               [Param ''t'' False (TRef ''TestContext'' [])]
               (TUnion [TVoid, TRef ''Promise'' [TVoid]]))]
         (TRef ''Promise'' [TBoolean])]"

text \<open>namespace Deno, line 3851: interface \<^verbatim>\<open>TcpConn\<close>\<close>

definition Deno_TcpConn :: decl where
  "Deno_TcpConn =
    DInterface [Export] ''TcpConn'' [TRef ''Conn'' []]
      [Method ''setNoDelay'' False [Param ''noDelay'' True TBoolean] TVoid,
       Method ''setKeepAlive'' False [Param ''keepAlive'' True TBoolean] TVoid]"

text \<open>namespace Deno, line 3863: interface \<^verbatim>\<open>TcpListenOptions\<close>\<close>

definition Deno_TcpListenOptions_1 :: decl where
  "Deno_TcpListenOptions_1 =
    DInterface [Export] ''TcpListenOptions'' [TRef ''ListenOptions'' []] []"

text \<open>namespace Deno, line 3867: interface \<^verbatim>\<open>TcpListenOptions\<close>\<close>

definition Deno_TcpListenOptions_2 :: decl where
  "Deno_TcpListenOptions_2 =
    DInterface [Export] ''TcpListenOptions'' [TRef ''ListenOptions'' []]
      [Prop False ''reusePort'' True TBoolean]"

text \<open>namespace Deno, line 3885: interface \<^verbatim>\<open>TlsConn\<close>\<close>

definition Deno_TlsConn_1 :: decl where
  "Deno_TlsConn_1 =
    DInterface [Export] ''TlsConn'' [TRef ''Conn'' []]
      [Method ''handshake'' False [] (TRef ''Promise'' [TRef ''TlsHandshakeInfo'' []])]"

text \<open>namespace Deno, line 3899: interface \<^verbatim>\<open>TlsConn\<close>\<close>

definition Deno_TlsConn_2 :: decl where
  "Deno_TlsConn_2 =
    DInterface [Export] ''TlsConn'' [TRef ''Conn'' []]
      [Method ''handshake'' False [] (TRef ''Promise'' [TRef ''TlsHandshakeInfo'' []])]"

text \<open>namespace Deno, line 3915: interface \<^verbatim>\<open>TlsListener\<close>\<close>

definition Deno_TlsListener :: decl where
  "Deno_TlsListener =
    DInterface [Export] ''TlsListener''
      [TRef ''Listener'' [], TRef ''AsyncIterable'' [TRef ''TlsConn'' []]]
      [Method ''accept'' False [] (TRef ''Promise'' [TRef ''TlsConn'' []]),
       Method ''[Symbol.asyncIterator]'' False []
         (TRef ''AsyncIterableIterator'' [TRef ''TlsConn'' []])]"

text \<open>namespace Deno, line 3922: interface \<^verbatim>\<open>UnixAddr\<close>\<close>

definition Deno_UnixAddr :: decl where
  "Deno_UnixAddr =
    DInterface [Export] ''UnixAddr'' []
      [Prop False ''transport'' False (TUnion [TStrLit ''unix'', TStrLit ''unixpacket'']),
       Prop False ''path'' False TString]"

text \<open>namespace Deno, line 3928: interface \<^verbatim>\<open>UnixConn\<close>\<close>

definition Deno_UnixConn :: decl where
  "Deno_UnixConn =
    DInterface [Export] ''UnixConn'' [TRef ''Conn'' []] []"

text \<open>namespace Deno, line 3936: interface \<^verbatim>\<open>WriteFileOptions\<close>\<close>

definition Deno_WriteFileOptions :: decl where
  "Deno_WriteFileOptions =
    DInterface [Export] ''WriteFileOptions'' []
      [Prop False ''append'' True TBoolean,
       Prop False ''create'' True TBoolean,
       Prop False ''createNew'' True TBoolean,
       Prop False ''mode'' True TNumber,
       Prop False ''signal'' True (TRef ''AbortSignal'' [])]"

text \<open>namespace Deno, line 3980: interface \<^verbatim>\<open>WritePermissionDescriptor\<close>\<close>

definition Deno_WritePermissionDescriptor :: decl where
  "Deno_WritePermissionDescriptor =
    DInterface [Export] ''WritePermissionDescriptor'' []
      [Prop False ''name'' False (TStrLit ''write''),
       Prop False ''path'' True (TUnion [TString, TRef ''URL'' []])]"

text \<open>namespace Deno, line 3995: interface \<^verbatim>\<open>Writer\<close>\<close>

definition Deno_Writer :: decl where
  "Deno_Writer =
    DInterface [Export] ''Writer'' []
      [Method ''write'' False
         [Param ''p'' False (TRef ''Uint8Array'' [])]
         (TRef ''Promise'' [TNumber])]"

text \<open>namespace Deno, line 4021: interface \<^verbatim>\<open>WriterSync\<close>\<close>

definition Deno_WriterSync :: decl where
  "Deno_WriterSync =
    DInterface [Export] ''WriterSync'' []
      [Method ''writeSync'' False [Param ''p'' False (TRef ''Uint8Array'' [])] TNumber]"

text \<open>namespace Deno, line 4041: interface \<^verbatim>\<open>CAARecord\<close>\<close>

definition Deno_CAARecord :: decl where
  "Deno_CAARecord =
    DInterface [Export] ''CAARecord'' []
      [Prop False ''critical'' False TBoolean,
       Prop False ''tag'' False TString,
       Prop False ''value'' False TString]"

text \<open>namespace Deno, line 4067: interface \<^verbatim>\<open>MXRecord\<close>\<close>

definition Deno_MXRecord :: decl where
  "Deno_MXRecord =
    DInterface [Export] ''MXRecord'' []
      [Prop False ''preference'' False TNumber, Prop False ''exchange'' False TString]"

text \<open>namespace Deno, line 4083: interface \<^verbatim>\<open>NAPTRRecord\<close>\<close>

definition Deno_NAPTRRecord :: decl where
  "Deno_NAPTRRecord =
    DInterface [Export] ''NAPTRRecord'' []
      [Prop False ''order'' False TNumber,
       Prop False ''preference'' False TNumber,
       Prop False ''flags'' False TString,
       Prop False ''services'' False TString,
       Prop False ''regexp'' False TString,
       Prop False ''replacement'' False TString]"

text \<open>namespace Deno, line 4097: interface \<^verbatim>\<open>ResolveDnsOptions\<close>\<close>

definition Deno_ResolveDnsOptions :: decl where
  "Deno_ResolveDnsOptions =
    DInterface [Export] ''ResolveDnsOptions'' []
      [Prop False ''nameServer'' True
         (TObj [Prop False ''ipAddr'' False TString, Prop False ''port'' True TNumber]),
       Prop False ''signal'' True (TRef ''AbortSignal'' [])]"

text \<open>namespace Deno, line 4126: interface \<^verbatim>\<open>SOARecord\<close>\<close>

definition Deno_SOARecord :: decl where
  "Deno_SOARecord =
    DInterface [Export] ''SOARecord'' []
      [Prop False ''mname'' False TString,
       Prop False ''rname'' False TString,
       Prop False ''serial'' False TNumber,
       Prop False ''refresh'' False TNumber,
       Prop False ''retry'' False TNumber,
       Prop False ''expire'' False TNumber,
       Prop False ''minimum'' False TNumber]"

text \<open>namespace Deno, line 4142: interface \<^verbatim>\<open>SRVRecord\<close>\<close>

definition Deno_SRVRecord :: decl where
  "Deno_SRVRecord =
    DInterface [Export] ''SRVRecord'' []
      [Prop False ''priority'' False TNumber,
       Prop False ''weight'' False TNumber,
       Prop False ''port'' False TNumber,
       Prop False ''target'' False TString]"

text \<open>namespace Deno, line 4157: type \<^verbatim>\<open>RecordType\<close>\<close>

definition Deno_RecordType :: decl where
  "Deno_RecordType =
    DType [Export] ''RecordType''
      (TUnion
         [TStrLit ''A'',
          TStrLit ''AAAA'',
          TStrLit ''ANAME'',
          TStrLit ''CAA'',
          TStrLit ''CNAME'',
          TStrLit ''MX'',
          TStrLit ''NAPTR'',
          TStrLit ''NS'',
          TStrLit ''PTR'',
          TStrLit ''SOA'',
          TStrLit ''SRV'',
          TStrLit ''TXT''])"

text \<open>namespace Deno, line 4181: const \<^verbatim>\<open>build\<close>\<close>

definition Deno_build :: decl where
  "Deno_build =
    DConst [Export] ''build''
      (TObj
         [Prop False ''target'' False TString,
          Prop False ''arch'' False (TUnion [TStrLit ''x86_64'', TStrLit ''aarch64'']),
          Prop False ''os'' False
            (TUnion
               [TStrLit ''darwin'',
                TStrLit ''linux'',
                TStrLit ''windows'',
                TStrLit ''freebsd'',
                TStrLit ''netbsd'',
                TStrLit ''aix'',
                TStrLit ''solaris'',
                TStrLit ''illumos'']),
          Prop False ''vendor'' False TString,
          Prop False ''env'' True TString])
      None"

text \<open>namespace Deno, line 4204: const \<^verbatim>\<open>customInspect\<close>\<close>

definition Deno_customInspect :: decl where
  "Deno_customInspect =
    DConst [Export] ''customInspect'' TUniqueSymbol None"

text \<open>namespace Deno, line 4212: const \<^verbatim>\<open>env\<close>\<close>

definition Deno_env :: decl where
  "Deno_env =
    DConst [Export] ''env'' (TRef ''Env'' []) None"

text \<open>namespace errors, line 4215: class \<^verbatim>\<open>AddrInUse\<close>\<close>

definition Deno_errors_AddrInUse :: decl where
  "Deno_errors_AddrInUse =
    DClass [Export] ''AddrInUse'' [] (Some (TRef ''Error'' [])) [] []"

text \<open>namespace errors, line 4218: class \<^verbatim>\<open>AddrNotAvailable\<close>\<close>

definition Deno_errors_AddrNotAvailable :: decl where
  "Deno_errors_AddrNotAvailable =
    DClass [Export] ''AddrNotAvailable'' [] (Some (TRef ''Error'' [])) [] []"

text \<open>namespace errors, line 4221: class \<^verbatim>\<open>AlreadyExists\<close>\<close>

definition Deno_errors_AlreadyExists :: decl where
  "Deno_errors_AlreadyExists =
    DClass [Export] ''AlreadyExists'' [] (Some (TRef ''Error'' [])) [] []"

text \<open>namespace errors, line 4224: class \<^verbatim>\<open>BadResource\<close>\<close>

definition Deno_errors_BadResource :: decl where
  "Deno_errors_BadResource =
    DClass [Export] ''BadResource'' [] (Some (TRef ''Error'' [])) [] []"

text \<open>namespace errors, line 4227: class \<^verbatim>\<open>BrokenPipe\<close>\<close>

definition Deno_errors_BrokenPipe :: decl where
  "Deno_errors_BrokenPipe =
    DClass [Export] ''BrokenPipe'' [] (Some (TRef ''Error'' [])) [] []"

text \<open>namespace errors, line 4230: class \<^verbatim>\<open>Busy\<close>\<close>

definition Deno_errors_Busy :: decl where
  "Deno_errors_Busy =
    DClass [Export] ''Busy'' [] (Some (TRef ''Error'' [])) [] []"

text \<open>namespace errors, line 4233: class \<^verbatim>\<open>ConnectionAborted\<close>\<close>

definition Deno_errors_ConnectionAborted :: decl where
  "Deno_errors_ConnectionAborted =
    DClass [Export] ''ConnectionAborted'' [] (Some (TRef ''Error'' [])) [] []"

text \<open>namespace errors, line 4236: class \<^verbatim>\<open>ConnectionRefused\<close>\<close>

definition Deno_errors_ConnectionRefused :: decl where
  "Deno_errors_ConnectionRefused =
    DClass [Export] ''ConnectionRefused'' [] (Some (TRef ''Error'' [])) [] []"

text \<open>namespace errors, line 4239: class \<^verbatim>\<open>ConnectionReset\<close>\<close>

definition Deno_errors_ConnectionReset :: decl where
  "Deno_errors_ConnectionReset =
    DClass [Export] ''ConnectionReset'' [] (Some (TRef ''Error'' [])) [] []"

text \<open>namespace errors, line 4242: class \<^verbatim>\<open>Http\<close>\<close>

definition Deno_errors_Http :: decl where
  "Deno_errors_Http =
    DClass [Export] ''Http'' [] (Some (TRef ''Error'' [])) [] []"

text \<open>namespace errors, line 4245: class \<^verbatim>\<open>Interrupted\<close>\<close>

definition Deno_errors_Interrupted :: decl where
  "Deno_errors_Interrupted =
    DClass [Export] ''Interrupted'' [] (Some (TRef ''Error'' [])) [] []"

text \<open>namespace errors, line 4248: class \<^verbatim>\<open>InvalidData\<close>\<close>

definition Deno_errors_InvalidData :: decl where
  "Deno_errors_InvalidData =
    DClass [Export] ''InvalidData'' [] (Some (TRef ''Error'' [])) [] []"

text \<open>namespace errors, line 4251: class \<^verbatim>\<open>NotConnected\<close>\<close>

definition Deno_errors_NotConnected :: decl where
  "Deno_errors_NotConnected =
    DClass [Export] ''NotConnected'' [] (Some (TRef ''Error'' [])) [] []"

text \<open>namespace errors, line 4254: class \<^verbatim>\<open>NotFound\<close>\<close>

definition Deno_errors_NotFound :: decl where
  "Deno_errors_NotFound =
    DClass [Export] ''NotFound'' [] (Some (TRef ''Error'' [])) []
      [CField [] ''code'' False (Some TString) None]"

text \<open>namespace errors, line 4258: class \<^verbatim>\<open>PermissionDenied\<close>\<close>

definition Deno_errors_PermissionDenied :: decl where
  "Deno_errors_PermissionDenied =
    DClass [Export] ''PermissionDenied'' [] (Some (TRef ''Error'' [])) [] []"

text \<open>namespace errors, line 4261: class \<^verbatim>\<open>TimedOut\<close>\<close>

definition Deno_errors_TimedOut :: decl where
  "Deno_errors_TimedOut =
    DClass [Export] ''TimedOut'' [] (Some (TRef ''Error'' [])) [] []"

text \<open>namespace errors, line 4264: class \<^verbatim>\<open>UnexpectedEof\<close>\<close>

definition Deno_errors_UnexpectedEof :: decl where
  "Deno_errors_UnexpectedEof =
    DClass [Export] ''UnexpectedEof'' [] (Some (TRef ''Error'' [])) [] []"

text \<open>namespace errors, line 4267: class \<^verbatim>\<open>WriteZero\<close>\<close>

definition Deno_errors_WriteZero :: decl where
  "Deno_errors_WriteZero =
    DClass [Export] ''WriteZero'' [] (Some (TRef ''Error'' [])) [] []"

text \<open>namespace Deno, lines 4214-4269: the members of namespace \<^verbatim>\<open>errors\<close>, in source order\<close>

definition Deno_errors_members :: "decl list" where
  "Deno_errors_members =
    [Deno_errors_AddrInUse,
     Deno_errors_AddrNotAvailable,
     Deno_errors_AlreadyExists,
     Deno_errors_BadResource,
     Deno_errors_BrokenPipe,
     Deno_errors_Busy,
     Deno_errors_ConnectionAborted,
     Deno_errors_ConnectionRefused,
     Deno_errors_ConnectionReset,
     Deno_errors_Http,
     Deno_errors_Interrupted,
     Deno_errors_InvalidData,
     Deno_errors_NotConnected,
     Deno_errors_NotFound,
     Deno_errors_PermissionDenied,
     Deno_errors_TimedOut,
     Deno_errors_UnexpectedEof,
     Deno_errors_WriteZero]"

definition Deno_errors :: decl where
  "Deno_errors = DNamespace [Export] ''errors'' Deno_errors_members"

text \<open>namespace Deno, line 4280: const \<^verbatim>\<open>mainModule\<close>\<close>

definition Deno_mainModule :: decl where
  "Deno_mainModule =
    DConst [Export] ''mainModule'' TString None"

text \<open>namespace Deno, line 4307: function \<^verbatim>\<open>metrics\<close>\<close>

definition Deno_metrics :: decl where
  "Deno_metrics =
    DFunction [Export] ''metrics'' [] [] (TRef ''Metrics'' []) None"

text \<open>namespace Deno, line 4319: const \<^verbatim>\<open>noColor\<close>\<close>

definition Deno_noColor :: decl where
  "Deno_noColor =
    DConst [Export] ''noColor'' TBoolean None"

text \<open>namespace Deno, line 4393: const \<^verbatim>\<open>permissions\<close>\<close>

definition Deno_permissions :: decl where
  "Deno_permissions =
    DConst [Export] ''permissions'' (TRef ''Permissions'' []) None"

text \<open>namespace Deno, line 4403: const \<^verbatim>\<open>pid\<close>\<close>

definition Deno_pid :: decl where
  "Deno_pid =
    DConst [Export] ''pid'' TNumber None"

text \<open>namespace Deno, line 4413: const \<^verbatim>\<open>ppid\<close>\<close>

definition Deno_ppid :: decl where
  "Deno_ppid =
    DConst [Export] ''ppid'' TNumber None"

text \<open>namespace Deno, line 4430: function \<^verbatim>\<open>resources\<close>\<close>

definition Deno_resources :: decl where
  "Deno_resources =
    DFunction [Export] ''resources'' [] [] (TRef ''ResourceMap'' []) None"

text \<open>namespace Deno, line 4443: const \<^verbatim>\<open>version\<close>\<close>

definition Deno_version :: decl where
  "Deno_version =
    DConst [Export] ''version''
      (TObj
         [Prop False ''deno'' False TString,
          Prop False ''v8'' False TString,
          Prop False ''typescript'' False TString])
      None"

text \<open>namespace Deno, line 4475: const \<^verbatim>\<open>stdin\<close>\<close>

definition Deno_stdin :: decl where
  "Deno_stdin =
    DConst [Export] ''stdin''
      (TInter
         [TRef ''Reader'' [],
          TRef ''ReaderSync'' [],
          TRef ''Closer'' [],
          TObj
            [Prop True ''rid'' False TNumber,
             Prop True ''readable'' False (TRef ''ReadableStream'' [TRef ''Uint8Array'' []]),
             Method ''setRaw'' False
               [Param ''mode'' False TBoolean,
                Param ''options'' True (TRef ''SetRawOptions'' [])]
               TVoid]])
      None"

text \<open>namespace Deno, line 4507: const \<^verbatim>\<open>stdout\<close>\<close>

definition Deno_stdout :: decl where
  "Deno_stdout =
    DConst [Export] ''stdout''
      (TInter
         [TRef ''Writer'' [],
          TRef ''WriterSync'' [],
          TRef ''Closer'' [],
          TObj
            [Prop True ''rid'' False TNumber,
             Prop True ''writable'' False (TRef ''WritableStream'' [TRef ''Uint8Array'' []])]])
      None"

text \<open>namespace Deno, line 4525: const \<^verbatim>\<open>stderr\<close>\<close>

definition Deno_stderr :: decl where
  "Deno_stderr =
    DConst [Export] ''stderr''
      (TInter
         [TRef ''Writer'' [],
          TRef ''WriterSync'' [],
          TRef ''Closer'' [],
          TObj
            [Prop True ''rid'' False TNumber,
             Prop True ''writable'' False (TRef ''WritableStream'' [TRef ''Uint8Array'' []])]])
      None"

text \<open>namespace Deno, line 4534: interface \<^verbatim>\<open>TlsHandshakeInfo\<close>\<close>

definition Deno_TlsHandshakeInfo_1 :: decl where
  "Deno_TlsHandshakeInfo_1 =
    DInterface [Export] ''TlsHandshakeInfo'' [] []"

text \<open>namespace Deno, line 4542: interface \<^verbatim>\<open>TlsHandshakeInfo\<close>\<close>

definition Deno_TlsHandshakeInfo_2 :: decl where
  "Deno_TlsHandshakeInfo_2 =
    DInterface [Export] ''TlsHandshakeInfo'' []
      [Prop False ''alpnProtocol'' False (TUnion [TString, TNull])]"

text \<open>namespace Deno, line 4557: interface \<^verbatim>\<open>UnixConnectOptions\<close>\<close>

definition Deno_UnixConnectOptions :: decl where
  "Deno_UnixConnectOptions =
    DInterface [Export] ''UnixConnectOptions'' []
      [Prop False ''transport'' False (TStrLit ''unix''), Prop False ''path'' False TString]"

text \<open>namespace Deno, line 4570: interface \<^verbatim>\<open>UnixListenOptions\<close>\<close>

definition Deno_UnixListenOptions :: decl where
  "Deno_UnixListenOptions =
    DInterface [Export] ''UnixListenOptions'' [] [Prop False ''path'' False TString]"

text \<open>namespace Deno, line 4587: function \<^verbatim>\<open>futime\<close>\<close>

definition Deno_futime :: decl where
  "Deno_futime =
    DFunction [Export] ''futime'' []
      [Param ''rid'' False TNumber,
       Param ''atime'' False (TUnion [TNumber, TRef ''Date'' []]),
       Param ''mtime'' False (TUnion [TNumber, TRef ''Date'' []])]
      (TRef ''Promise'' [TVoid])
      None"

text \<open>namespace Deno, line 4600: function \<^verbatim>\<open>futimeSync\<close>\<close>

definition Deno_futimeSync :: decl where
  "Deno_futimeSync =
    DFunction [Export] ''futimeSync'' []
      [Param ''rid'' False TNumber,
       Param ''atime'' False (TUnion [TNumber, TRef ''Date'' []]),
       Param ''mtime'' False (TUnion [TNumber, TRef ''Date'' []])]
      TVoid
      None"

text \<open>namespace Deno, line 4615: function \<^verbatim>\<open>utime\<close>\<close>

definition Deno_utime :: decl where
  "Deno_utime =
    DFunction [Export] ''utime'' []
      [Param ''path'' False (TUnion [TString, TRef ''URL'' []]),
       Param ''atime'' False (TUnion [TNumber, TRef ''Date'' []]),
       Param ''mtime'' False (TUnion [TNumber, TRef ''Date'' []])]
      (TRef ''Promise'' [TVoid])
      None"

text \<open>namespace Deno, line 4630: function \<^verbatim>\<open>utimeSync\<close>\<close>

definition Deno_utimeSync :: decl where
  "Deno_utimeSync =
    DFunction [Export] ''utimeSync'' []
      [Param ''path'' False (TUnion [TString, TRef ''URL'' []]),
       Param ''atime'' False (TUnion [TNumber, TRef ''Date'' []]),
       Param ''mtime'' False (TUnion [TNumber, TRef ''Date'' []])]
      TVoid
      None"

text \<open>top level, lines 178-4631: the members of namespace \<^verbatim>\<open>Deno\<close>, in source order\<close>

definition Deno_members :: "decl list" where
  "Deno_members =
    [Deno_File,
     Deno_FsFile,
     Deno_Permissions,
     Deno_PermissionStatus,
     Deno_SeekMode,
     Deno_isatty,
     Deno_chdir,
     Deno_chmod,
     Deno_chmodSync,
     Deno_chown,
     Deno_chownSync,
     Deno_close,
     Deno_connect_1,
     Deno_connect_2,
     Deno_connect_3,
     Deno_connectTls_1,
     Deno_connectTls_2,
     Deno_copy,
     Deno_copyFile,
     Deno_copyFileSync,
     Deno_create,
     Deno_createSync,
     Deno_cwd,
     Deno_execPath,
     Deno_exit,
     Deno_fdatasync,
     Deno_fdatasyncSync,
     Deno_fstat,
     Deno_fstatSync,
     Deno_fsync,
     Deno_fsyncSync,
     Deno_ftruncate,
     Deno_ftruncateSync,
     Deno_gid,
     Deno_hostname,
     Deno_inspect,
     Deno_kill,
     Deno_link,
     Deno_linkSync,
     Deno_listen_1,
     Deno_listen_2,
     Deno_listenTls,
     Deno_loadavg,
     Deno_lstat,
     Deno_lstatSync,
     Deno_makeTempDir,
     Deno_makeTempDirSync,
     Deno_makeTempFile,
     Deno_makeTempFileSync,
     Deno_memoryUsage,
     Deno_mkdir,
     Deno_mkdirSync,
     Deno_open,
     Deno_openSync,
     Deno_osRelease,
     Deno_osUptime,
     Deno_read,
     Deno_readDir,
     Deno_readDirSync,
     Deno_readFile,
     Deno_readFileSync,
     Deno_readLink,
     Deno_readLinkSync,
     Deno_readSync,
     Deno_readTextFile,
     Deno_readTextFileSync,
     Deno_realPath,
     Deno_realPathSync,
     Deno_remove,
     Deno_removeSync,
     Deno_rename,
     Deno_renameSync,
     Deno_resolveDns_1,
     Deno_resolveDns_2,
     Deno_resolveDns_3,
     Deno_resolveDns_4,
     Deno_resolveDns_5,
     Deno_resolveDns_6,
     Deno_resolveDns_7,
     Deno_resolveDns_8,
     Deno_Process,
     Deno_run_1,
     Deno_run_2,
     Deno_UnstableRunOptions,
     Deno_shutdown,
     Deno_stat,
     Deno_statSync,
     Deno_symlink,
     Deno_symlinkSync,
     Deno_test_1,
     Deno_test_2,
     Deno_test_3,
     Deno_test_4,
     Deno_test_5,
     Deno_test_6,
     Deno_truncate,
     Deno_truncateSync,
     Deno_uid,
     Deno_watchFs,
     Deno_write,
     Deno_writeFile,
     Deno_writeFileSync,
     Deno_writeSync,
     Deno_writeTextFile,
     Deno_writeTextFileSync,
     Deno_args,
     Deno_Addr,
     Deno_Closer,
     Deno_Conn,
     Deno_ConnectOptions,
     Deno_ConnectTlsOptions_1,
     Deno_ConnectTlsOptions_2,
     Deno_DirEntry,
     Deno_EnvPermissionDescriptor,
     Deno_FfiPermissionDescriptor,
     Deno_SysPermissionDescriptor,
     Deno_Env,
     Deno_FileInfo,
     Deno_FsEvent,
     Deno_FsEventFlag,
     Deno_FsWatcher,
     Deno_HrtimePermissionDescriptor,
     Deno_InspectOptions,
     Deno_Listener,
     Deno_ListenOptions,
     Deno_ListenTlsOptions_1,
     Deno_ListenTlsOptions_2,
     Deno_MakeTempOptions,
     Deno_MemoryUsage,
     Deno_Metrics,
     Deno_MkdirOptions,
     Deno_NetAddr,
     Deno_NetPermissionDescriptor,
     Deno_OpenOptions,
     Deno_OpMetrics,
     Deno_PermissionDescriptor,
     Deno_PermissionName,
     Deno_PermissionOptions,
     Deno_PermissionOptionsObject,
     Deno_PermissionState,
     Deno_PermissionStatusEventMap,
     Deno_ProcessStatus,
     Deno_Reader,
     Deno_ReaderSync,
     Deno_ReadFileOptions,
     Deno_ReadPermissionDescriptor,
     Deno_RemoveOptions,
     Deno_ResourceMap,
     Deno_RunOptions,
     Deno_RunPermissionDescriptor,
     Deno_Seeker,
     Deno_SeekerSync,
     Deno_SetRawOptions,
     Deno_Signal,
     Deno_SymlinkOptions,
     Deno_TestDefinition,
     Deno_TestStepDefinition,
     Deno_TestContext,
     Deno_TcpConn,
     Deno_TcpListenOptions_1,
     Deno_TcpListenOptions_2,
     Deno_TlsConn_1,
     Deno_TlsConn_2,
     Deno_TlsListener,
     Deno_UnixAddr,
     Deno_UnixConn,
     Deno_WriteFileOptions,
     Deno_WritePermissionDescriptor,
     Deno_Writer,
     Deno_WriterSync,
     Deno_CAARecord,
     Deno_MXRecord,
     Deno_NAPTRRecord,
     Deno_ResolveDnsOptions,
     Deno_SOARecord,
     Deno_SRVRecord,
     Deno_RecordType,
     Deno_build,
     Deno_customInspect,
     Deno_env,
     Deno_errors,
     Deno_mainModule,
     Deno_metrics,
     Deno_noColor,
     Deno_permissions,
     Deno_pid,
     Deno_ppid,
     Deno_resources,
     Deno_version,
     Deno_stdin,
     Deno_stdout,
     Deno_stderr,
     Deno_TlsHandshakeInfo_1,
     Deno_TlsHandshakeInfo_2,
     Deno_UnixConnectOptions,
     Deno_UnixListenOptions,
     Deno_futime,
     Deno_futimeSync,
     Deno_utime,
     Deno_utimeSync]"

definition Deno :: decl where
  "Deno = DNamespace [Export, Declare] ''Deno'' Deno_members"

text \<open>module @deno/shim-deno/test-internals, line 4634: type \<^verbatim>\<open>TestDefinition\<close>\<close>

definition test_internals_TestDefinition :: decl where
  "test_internals_TestDefinition =
    DType [] ''TestDefinition'' (TRef ''Deno.TestDefinition'' [])"

text \<open>module @deno/shim-deno/test-internals, line 4636: const \<^verbatim>\<open>testDefinitions\<close>\<close>

definition test_internals_testDefinitions :: decl where
  "test_internals_testDefinitions =
    DConst [Export] ''testDefinitions'' (TArray (TRef ''TestDefinition'' [])) None"

text \<open>top level, lines 4633-4637: the members of module \<^verbatim>\<open>@deno/shim-deno/test-internals\<close>, in source order\<close>

definition test_internals_members :: "decl list" where
  "test_internals_members =
    [test_internals_TestDefinition, test_internals_testDefinitions]"

definition test_internals :: decl where
  "test_internals = DModule [Declare] ''@deno/shim-deno/test-internals'' test_internals_members"

subsection \<open>Reading declarations\<close>

text \<open>The name a declaration introduces (for an import, the module it names).\<close>

fun decl_name :: "decl \<Rightarrow> string" where
  "decl_name (DImport ns m) = m"
| "decl_name (DConst ms n t i) = n"
| "decl_name (DFunction ms n tps ps r b) = n"
| "decl_name (DClass ms n tps e is cs) = n"
| "decl_name (DInterface ms n es xs) = n"
| "decl_name (DType ms n t) = n"
| "decl_name (DEnum ms n xs) = n"
| "decl_name (DNamespace ms n ds) = n"
| "decl_name (DModule ms n ds) = n"
| "decl_name (DStatement s) = []"

text \<open>All declarations of a name in a scope, in source order.\<close>

definition named :: "string \<Rightarrow> decl list \<Rightarrow> decl list" where
  "named n ds = filter (\<lambda>d. decl_name d = n) ds"

fun is_function :: "decl \<Rightarrow> bool" where
  "is_function (DFunction ms n tps ps r b) = True"
| "is_function d = False"

fun is_class :: "decl \<Rightarrow> bool" where
  "is_class (DClass ms n tps e is cs) = True"
| "is_class d = False"

fun is_interface :: "decl \<Rightarrow> bool" where
  "is_interface (DInterface ms n es xs) = True"
| "is_interface d = False"

text \<open>The declarations that introduce a type name.\<close>

fun is_type_decl :: "decl \<Rightarrow> bool" where
  "is_type_decl (DClass ms n tps e is cs) = True"
| "is_type_decl (DInterface ms n es xs) = True"
| "is_type_decl (DType ms n t) = True"
| "is_type_decl (DEnum ms n xs) = True"
| "is_type_decl d = False"

fun fn_params :: "decl \<Rightarrow> param list" where
  "fn_params (DFunction ms n tps ps r b) = ps"
| "fn_params d = []"

text \<open>The signature of a function declaration: parameters and result.\<close>

fun fn_sig :: "decl \<Rightarrow> (param list \<times> ty) list" where
  "fn_sig (DFunction ms n tps ps r b) = [(ps, r)]"
| "fn_sig d = []"

fun class_extends :: "decl \<Rightarrow> ty option" where
  "class_extends (DClass ms n tps e is cs) = e"
| "class_extends d = None"

fun class_members :: "decl \<Rightarrow> cmember list" where
  "class_members (DClass ms n tps e is cs) = cs"
| "class_members d = []"

fun iface_members :: "decl \<Rightarrow> member list" where
  "iface_members (DInterface ms n es xs) = xs"
| "iface_members d = []"

fun alias_type :: "decl \<Rightarrow> ty list" where
  "alias_type (DType ms n t) = [t]"
| "alias_type d = []"


fun enum_members :: "decl \<Rightarrow> (string \<times> expr option) list" where
  "enum_members (DEnum ms n xs) = xs"
| "enum_members d = []"

fun param_name :: "param \<Rightarrow> string" where
  "param_name (Param n opt t) = n"

fun param_optional :: "param \<Rightarrow> bool" where
  "param_optional (Param n opt t) = opt"

fun param_type :: "param \<Rightarrow> ty" where
  "param_type (Param n opt t) = t"

text \<open>The members of a given name; call and index signatures have no name.\<close>

fun member_named :: "string \<Rightarrow> member \<Rightarrow> bool" where
  "member_named x (Prop ro n opt t) = (n = x)"
| "member_named x (Method n opt ps r) = (n = x)"
| "member_named x (CallSig ps r) = False"
| "member_named x (IndexSig k kt t) = False"

fun cmember_named :: "string \<Rightarrow> cmember \<Rightarrow> bool" where
  "cmember_named x (CField ms n opt t i) = (n = x)"
| "cmember_named x (CMethod ms n ps r b) = (n = x)"
| "cmember_named x (CGetter n r b) = (n = x)"
| "cmember_named x (CCtor ps b) = False"

text \<open>The methods of a class as (name, parameters, result).\<close>

fun method_sig :: "cmember \<Rightarrow> (string \<times> param list \<times> ty) list" where
  "method_sig (CMethod ms n ps r b) = [(n, ps, r)]"
| "method_sig c = []"



fun union_alternatives :: "ty \<Rightarrow> ty list" where
  "union_alternatives (TUnion ts) = ts"
| "union_alternatives t = [t]"

fun ref_name :: "ty \<Rightarrow> string" where
  "ref_name (TRef n ts) = n"
| "ref_name t = []"

text \<open>
  What an asynchronous operation eventually yields: \<^verbatim>\<open>T\<close> for a result \<^verbatim>\<open>Promise<T>\<close>, the
  result itself otherwise.
\<close>

fun awaited :: "ty \<Rightarrow> ty" where
  "awaited (TRef n [t]) = (if n = ''Promise'' then t else TRef n [t])"
| "awaited t = t"

subsection \<open>Names referenced and names bound\<close>






text \<open>
  Every name bound inside a type: the names of the parameters of its function types and
  signatures, and the names of the properties and methods of its object types.
\<close>

primrec bound :: "ty \<Rightarrow> string list"
  and bound_param :: "param \<Rightarrow> string list"
  and bound_member :: "member \<Rightarrow> string list" where
  "bound TNumber = []"
| "bound TString = []"
| "bound TBoolean = []"
| "bound TVoid = []"
| "bound TNull = []"
| "bound TUndefined = []"
| "bound TNever = []"
| "bound TUnknown = []"
| "bound TAny = []"
| "bound TBigint = []"
| "bound TUniqueSymbol = []"
| "bound (TStrLit s) = []"
| "bound (TNumLit k) = []"
| "bound (TBoolLit b) = []"
| "bound (TRef n ts) = concat (map bound ts)"
| "bound (TTypeof n) = []"
| "bound (TImport m n ts) = concat (map bound ts)"
| "bound (TUnion ts) = concat (map bound ts)"
| "bound (TInter ts) = concat (map bound ts)"
| "bound (TArray t) = bound t"
| "bound (TReadonly t) = bound t"
| "bound (TTuple ts) = concat (map bound ts)"
| "bound (TRest t) = bound t"
| "bound (TIndexed t i) = bound t @ bound i"
| "bound (TCond c e t f) = bound c @ bound e @ bound t @ bound f"
| "bound (TFun ps r) = concat (map bound_param ps) @ bound r"
| "bound (TObj xs) = concat (map bound_member xs)"
| "bound_param (Param n opt t) = n # bound t"
| "bound_member (Prop ro n opt t) = n # bound t"
| "bound_member (Method n opt ps r) = n # concat (map bound_param ps) @ bound r"
| "bound_member (CallSig ps r) = concat (map bound_param ps) @ bound r"
| "bound_member (IndexSig k kt t) = k # bound kt @ bound t"





text \<open>
  The number of callable or indexable parts of a type: function types, methods, call
  signatures and index signatures. A type without any is plain data.
\<close>

primrec signatures :: "ty \<Rightarrow> nat"
  and signatures_param :: "param \<Rightarrow> nat"
  and signatures_member :: "member \<Rightarrow> nat" where
  "signatures TNumber = 0"
| "signatures TString = 0"
| "signatures TBoolean = 0"
| "signatures TVoid = 0"
| "signatures TNull = 0"
| "signatures TUndefined = 0"
| "signatures TNever = 0"
| "signatures TUnknown = 0"
| "signatures TAny = 0"
| "signatures TBigint = 0"
| "signatures TUniqueSymbol = 0"
| "signatures (TStrLit s) = 0"
| "signatures (TNumLit k) = 0"
| "signatures (TBoolLit b) = 0"
| "signatures (TRef n ts) = sum_list (map signatures ts)"
| "signatures (TTypeof n) = 0"
| "signatures (TImport m n ts) = sum_list (map signatures ts)"
| "signatures (TUnion ts) = sum_list (map signatures ts)"
| "signatures (TInter ts) = sum_list (map signatures ts)"
| "signatures (TArray t) = signatures t"
| "signatures (TReadonly t) = signatures t"
| "signatures (TTuple ts) = sum_list (map signatures ts)"
| "signatures (TRest t) = signatures t"
| "signatures (TIndexed t i) = signatures t + signatures i"
| "signatures (TCond c e t f) = signatures c + signatures e + signatures t + signatures f"
| "signatures (TFun ps r) = Suc (sum_list (map signatures_param ps) + signatures r)"
| "signatures (TObj xs) = sum_list (map signatures_member xs)"
| "signatures_param (Param n opt t) = signatures t"
| "signatures_member (Prop ro n opt t) = signatures t"
| "signatures_member (Method n opt ps r) = Suc (sum_list (map signatures_param ps) + signatures r)"
| "signatures_member (CallSig ps r) = Suc (sum_list (map signatures_param ps) + signatures r)"
| "signatures_member (IndexSig k kt t) = Suc (signatures kt + signatures t)"

subsection \<open>Strings\<close>

fun starts_with :: "string \<Rightarrow> string \<Rightarrow> bool" where
  "starts_with [] s = True"
| "starts_with (c # cs) [] = False"
| "starts_with (c # cs) (x # xs) = (c = x \<and> starts_with cs xs)"

definition ends_with :: "string \<Rightarrow> string \<Rightarrow> bool" where
  "ends_with sfx s = starts_with (rev sfx) (rev s)"

fun contains :: "string \<Rightarrow> string \<Rightarrow> bool" where
  "contains w [] = (w = [])"
| "contains w (x # xs) = (starts_with w (x # xs) \<or> contains w xs)"

subsection \<open>Looking names up in the namespace\<close>

fun namespace_members :: "decl \<Rightarrow> decl list" where
  "namespace_members (DNamespace ms n ds) = ds"
| "namespace_members (DModule ms n ds) = ds"
| "namespace_members d = []"

fun decl_mods :: "decl \<Rightarrow> dmod list" where
  "decl_mods (DImport ns m) = []"
| "decl_mods (DConst ms n t i) = ms"
| "decl_mods (DFunction ms n tps ps r b) = ms"
| "decl_mods (DClass ms n tps e is cs) = ms"
| "decl_mods (DInterface ms n es xs) = ms"
| "decl_mods (DType ms n t) = ms"
| "decl_mods (DEnum ms n xs) = ms"
| "decl_mods (DNamespace ms n ds) = ms"
| "decl_mods (DModule ms n ds) = ms"
| "decl_mods (DStatement s) = []"

text \<open>
  Inside the namespace a type is named either plainly (\<^verbatim>\<open>FileInfo\<close>) or qualified
  (\<^verbatim>\<open>Deno.FileInfo\<close>); both name the same member.
\<close>

definition unqualify :: "string \<Rightarrow> string" where
  "unqualify n = (if starts_with ''Deno.'' n then drop 5 n else n)"

definition resolve :: "string \<Rightarrow> decl list" where
  "resolve n = filter is_type_decl (named (unqualify n) Deno_members)"

text \<open>The alternatives of the union a type alias stands for.\<close>

definition alternatives :: "string \<Rightarrow> ty list" where
  "alternatives n = concat (map union_alternatives (concat (map alias_type (resolve n))))"

text \<open>The classes of the nested namespace \<^verbatim>\<open>Deno.errors\<close>.\<close>

definition error_classes :: "decl list" where
  "error_classes = concat (map namespace_members (named ''errors'' Deno_members))"

text \<open>All overloads of a free function of the namespace.\<close>

definition fn_sigs :: "string \<Rightarrow> (param list \<times> ty) list" where
  "fn_sigs n = concat (map fn_sig (named n Deno_members))"

subsection \<open>Bodies and initializers\<close>

fun literal_expr :: "expr \<Rightarrow> bool" where
  "literal_expr (ENum k) = True"
| "literal_expr (EStr s) = True"
| "literal_expr (EName x) = False"

fun enum_member_constant :: "string \<times> expr option \<Rightarrow> bool" where
  "enum_member_constant (n, None) = True"
| "enum_member_constant (n, Some e) = literal_expr e"

fun cmember_signature_only :: "cmember \<Rightarrow> bool" where
  "cmember_signature_only (CField ms n opt t i) = (i = None)"
| "cmember_signature_only (CMethod ms n ps r b) = (b = None)"
| "cmember_signature_only (CGetter n r b) = (b = None)"
| "cmember_signature_only (CCtor ps b) = (b = None)"

text \<open>
  A declaration is a signature only when no function, method, accessor or constructor in it
  has a body and no constant or field an initializer. Interfaces and type aliases cannot
  have either; the members of an enum may only be given literal values. A statement is
  never a signature.
\<close>

fun signature_only :: "decl \<Rightarrow> bool" where
  "signature_only (DImport ns m) = True"
| "signature_only (DConst ms n t i) = (i = None)"
| "signature_only (DFunction ms n tps ps r b) = (b = None)"
| "signature_only (DClass ms n tps e is cs) = list_all cmember_signature_only cs"
| "signature_only (DInterface ms n es xs) = True"
| "signature_only (DType ms n t) = True"
| "signature_only (DEnum ms n xs) = list_all enum_member_constant xs"
| "signature_only (DNamespace ms n ds) = list_all signature_only ds"
| "signature_only (DModule ms n ds) = list_all signature_only ds"
| "signature_only (DStatement s) = False"

subsection \<open>Asynchronous functions and their synchronous variants\<close>

text \<open>
  A function \<open>n\<close> and its variant \<open>nSync\<close> agree when each is declared exactly once, both take
  the same first parameter, and \<open>n\<close> returns a promise of exactly what \<open>nSync\<close> returns.
\<close>

definition sync_pair_ok :: "string \<Rightarrow> bool" where
  "sync_pair_ok n =
    (case (fn_sigs n, fn_sigs (n @ ''Sync'')) of
       ([(p # ps, r)], [(q # qs, s)]) \<Rightarrow> p = q \<and> r = TRef ''Promise'' [s]
     | _ \<Rightarrow> False)"

subsection \<open>Option shapes\<close>

text \<open>
  The option and descriptor shapes of the namespace are its interfaces and type aliases named
  \<^verbatim>\<open>...Options\<close>, \<^verbatim>\<open>...OptionsObject\<close> or \<^verbatim>\<open>...PermissionDescriptor\<close>. Such a shape is a plain
  record when it neither is nor contains a method, a function type, a call signature or an
  index signature.
\<close>

fun is_alias :: "decl \<Rightarrow> bool" where
  "is_alias (DType ms n t) = True"
| "is_alias d = False"

definition is_option_shape :: "decl \<Rightarrow> bool" where
  "is_option_shape d =
    ((is_interface d \<or> is_alias d) \<and>
      (ends_with ''Options'' (decl_name d) \<or> ends_with ''OptionsObject'' (decl_name d)
        \<or> ends_with ''PermissionDescriptor'' (decl_name d)))"





text \<open>The members of all parts of an interface of the namespace, and the types of its properties.\<close>

definition members_of :: "string \<Rightarrow> member list" where
  "members_of n = concat (map iface_members (resolve n))"


subsection \<open>Resource handles\<close>




text \<open>A free function addresses a resource by its handle when it has a parameter named \<^verbatim>\<open>rid\<close>.\<close>

definition takes_rid :: "decl \<Rightarrow> bool" where
  "takes_rid d = (''rid'' \<in> set (map param_name (fn_params d)))"


text \<open>A function whose first parameter is a required number.\<close>

definition numeric_first :: "decl \<Rightarrow> bool" where
  "numeric_first d =
    (case fn_params d of [] \<Rightarrow> False | p # ps \<Rightarrow> \<not> param_optional p \<and> param_type p = TNumber)"

subsection \<open>Cancellation, scheduling and locking\<close>




text \<open>
  A name speaks of scheduling or locking when it contains one of these words. The names
  looked at are those an operation takes (\<open>decl_inputs\<close>) and the fields of the option shapes.
\<close>

definition sched_lock_words :: "string list" where
  "sched_lock_words =
    [''lock'', ''Lock'', ''mutex'', ''Mutex'', ''semaphore'', ''Semaphore'', ''sched'', ''Sched'',
     ''priority'', ''Priority'']"

definition sched_or_lock_name :: "string \<Rightarrow> bool" where
  "sched_or_lock_name n = list_ex (\<lambda>w. contains w n) sched_lock_words"


section \<open>Properties of the surface\<close>

subsection \<open>Unfolding the declarations\<close>

lemmas Deno_member_defs = Deno_File_def Deno_FsFile_def Deno_Permissions_def
   Deno_PermissionStatus_def Deno_SeekMode_def Deno_isatty_def Deno_chdir_def Deno_chmod_def
   Deno_chmodSync_def Deno_chown_def Deno_chownSync_def Deno_close_def Deno_connect_1_def
   Deno_connect_2_def Deno_connect_3_def Deno_connectTls_1_def Deno_connectTls_2_def
   Deno_copy_def Deno_copyFile_def Deno_copyFileSync_def Deno_create_def Deno_createSync_def
   Deno_cwd_def Deno_execPath_def Deno_exit_def Deno_fdatasync_def Deno_fdatasyncSync_def
   Deno_fstat_def Deno_fstatSync_def Deno_fsync_def Deno_fsyncSync_def Deno_ftruncate_def
   Deno_ftruncateSync_def Deno_gid_def Deno_hostname_def Deno_inspect_def Deno_kill_def
   Deno_link_def Deno_linkSync_def Deno_listen_1_def Deno_listen_2_def Deno_listenTls_def
   Deno_loadavg_def Deno_lstat_def Deno_lstatSync_def Deno_makeTempDir_def
   Deno_makeTempDirSync_def Deno_makeTempFile_def Deno_makeTempFileSync_def Deno_memoryUsage_def
   Deno_mkdir_def Deno_mkdirSync_def Deno_open_def Deno_openSync_def Deno_osRelease_def
   Deno_osUptime_def Deno_read_def Deno_readDir_def Deno_readDirSync_def Deno_readFile_def
   Deno_readFileSync_def Deno_readLink_def Deno_readLinkSync_def Deno_readSync_def
   Deno_readTextFile_def Deno_readTextFileSync_def Deno_realPath_def Deno_realPathSync_def
   Deno_remove_def Deno_removeSync_def Deno_rename_def Deno_renameSync_def Deno_resolveDns_1_def
   Deno_resolveDns_2_def Deno_resolveDns_3_def Deno_resolveDns_4_def Deno_resolveDns_5_def
   Deno_resolveDns_6_def Deno_resolveDns_7_def Deno_resolveDns_8_def Deno_Process_def
   Deno_run_1_def Deno_run_2_def Deno_UnstableRunOptions_def Deno_shutdown_def Deno_stat_def
   Deno_statSync_def Deno_symlink_def Deno_symlinkSync_def Deno_test_1_def Deno_test_2_def
   Deno_test_3_def Deno_test_4_def Deno_test_5_def Deno_test_6_def Deno_truncate_def
   Deno_truncateSync_def Deno_uid_def Deno_watchFs_def Deno_write_def Deno_writeFile_def
   Deno_writeFileSync_def Deno_writeSync_def Deno_writeTextFile_def Deno_writeTextFileSync_def
   Deno_args_def Deno_Addr_def Deno_Closer_def Deno_Conn_def Deno_ConnectOptions_def
   Deno_ConnectTlsOptions_1_def Deno_ConnectTlsOptions_2_def Deno_DirEntry_def
   Deno_EnvPermissionDescriptor_def Deno_FfiPermissionDescriptor_def
   Deno_SysPermissionDescriptor_def Deno_Env_def Deno_FileInfo_def Deno_FsEvent_def
   Deno_FsEventFlag_def Deno_FsWatcher_def Deno_HrtimePermissionDescriptor_def
   Deno_InspectOptions_def Deno_Listener_def Deno_ListenOptions_def Deno_ListenTlsOptions_1_def
   Deno_ListenTlsOptions_2_def Deno_MakeTempOptions_def Deno_MemoryUsage_def Deno_Metrics_def
   Deno_MkdirOptions_def Deno_NetAddr_def Deno_NetPermissionDescriptor_def Deno_OpenOptions_def
   Deno_OpMetrics_def Deno_PermissionDescriptor_def Deno_PermissionName_def
   Deno_PermissionOptions_def Deno_PermissionOptionsObject_def Deno_PermissionState_def
   Deno_PermissionStatusEventMap_def Deno_ProcessStatus_def Deno_Reader_def Deno_ReaderSync_def
   Deno_ReadFileOptions_def Deno_ReadPermissionDescriptor_def Deno_RemoveOptions_def
   Deno_ResourceMap_def Deno_RunOptions_def Deno_RunPermissionDescriptor_def Deno_Seeker_def
   Deno_SeekerSync_def Deno_SetRawOptions_def Deno_Signal_def Deno_SymlinkOptions_def
   Deno_TestDefinition_def Deno_TestStepDefinition_def Deno_TestContext_def Deno_TcpConn_def
   Deno_TcpListenOptions_1_def Deno_TcpListenOptions_2_def Deno_TlsConn_1_def Deno_TlsConn_2_def
   Deno_TlsListener_def Deno_UnixAddr_def Deno_UnixConn_def Deno_WriteFileOptions_def
   Deno_WritePermissionDescriptor_def Deno_Writer_def Deno_WriterSync_def Deno_CAARecord_def
   Deno_MXRecord_def Deno_NAPTRRecord_def Deno_ResolveDnsOptions_def Deno_SOARecord_def
   Deno_SRVRecord_def Deno_RecordType_def Deno_build_def Deno_customInspect_def Deno_env_def
   Deno_mainModule_def Deno_metrics_def Deno_noColor_def Deno_permissions_def
   Deno_pid_def Deno_ppid_def Deno_resources_def Deno_version_def Deno_stdin_def Deno_stdout_def
   Deno_stderr_def Deno_TlsHandshakeInfo_1_def Deno_TlsHandshakeInfo_2_def
   Deno_UnixConnectOptions_def Deno_UnixListenOptions_def Deno_futime_def Deno_futimeSync_def
   Deno_utime_def Deno_utimeSync_def

lemmas Deno_errors_member_defs = Deno_errors_AddrInUse_def Deno_errors_AddrNotAvailable_def
   Deno_errors_AlreadyExists_def Deno_errors_BadResource_def Deno_errors_BrokenPipe_def
   Deno_errors_Busy_def Deno_errors_ConnectionAborted_def Deno_errors_ConnectionRefused_def
   Deno_errors_ConnectionReset_def Deno_errors_Http_def Deno_errors_Interrupted_def
   Deno_errors_InvalidData_def Deno_errors_NotConnected_def Deno_errors_NotFound_def
   Deno_errors_PermissionDenied_def Deno_errors_TimedOut_def Deno_errors_UnexpectedEof_def
   Deno_errors_WriteZero_def

lemmas Global_defs = import_url_def import_stream_web_def Global_EventTarget_def
   Global_Event_def Global_EventInit_def Global_EventListenerOptions_def
   Global_AddEventListenerOptions_def Global_EventListener_def Global_EventListenerObject_def
   Global_EventListenerOrEventListenerObject_def test_internals_TestDefinition_def
   test_internals_testDefinitions_def test_internals_members_def test_internals_def

text \<open>The name of every declaration, for looking names up without unfolding the declarations.\<close>

lemma Deno_member_names [simp]:
  "decl_name Deno_File = ''File''" "decl_name Deno_FsFile = ''FsFile''"
  "decl_name Deno_Permissions = ''Permissions''"
  "decl_name Deno_PermissionStatus = ''PermissionStatus''"
  "decl_name Deno_SeekMode = ''SeekMode''" "decl_name Deno_isatty = ''isatty''"
  "decl_name Deno_chdir = ''chdir''" "decl_name Deno_chmod = ''chmod''"
  "decl_name Deno_chmodSync = ''chmodSync''" "decl_name Deno_chown = ''chown''"
  "decl_name Deno_chownSync = ''chownSync''" "decl_name Deno_close = ''close''"
  "decl_name Deno_connect_1 = ''connect''" "decl_name Deno_connect_2 = ''connect''"
  "decl_name Deno_connect_3 = ''connect''" "decl_name Deno_connectTls_1 = ''connectTls''"
  "decl_name Deno_connectTls_2 = ''connectTls''" "decl_name Deno_copy = ''copy''"
  "decl_name Deno_copyFile = ''copyFile''" "decl_name Deno_copyFileSync = ''copyFileSync''"
  "decl_name Deno_create = ''create''" "decl_name Deno_createSync = ''createSync''"
  "decl_name Deno_cwd = ''cwd''" "decl_name Deno_execPath = ''execPath''"
  "decl_name Deno_exit = ''exit''" "decl_name Deno_fdatasync = ''fdatasync''"
  "decl_name Deno_fdatasyncSync = ''fdatasyncSync''" "decl_name Deno_fstat = ''fstat''"
  "decl_name Deno_fstatSync = ''fstatSync''" "decl_name Deno_fsync = ''fsync''"
  "decl_name Deno_fsyncSync = ''fsyncSync''" "decl_name Deno_ftruncate = ''ftruncate''"
  "decl_name Deno_ftruncateSync = ''ftruncateSync''" "decl_name Deno_gid = ''gid''"
  "decl_name Deno_hostname = ''hostname''" "decl_name Deno_inspect = ''inspect''"
  "decl_name Deno_kill = ''kill''" "decl_name Deno_link = ''link''"
  "decl_name Deno_linkSync = ''linkSync''" "decl_name Deno_listen_1 = ''listen''"
  "decl_name Deno_listen_2 = ''listen''" "decl_name Deno_listenTls = ''listenTls''"
  "decl_name Deno_loadavg = ''loadavg''" "decl_name Deno_lstat = ''lstat''"
  "decl_name Deno_lstatSync = ''lstatSync''" "decl_name Deno_makeTempDir = ''makeTempDir''"
  "decl_name Deno_makeTempDirSync = ''makeTempDirSync''"
  "decl_name Deno_makeTempFile = ''makeTempFile''"
  "decl_name Deno_makeTempFileSync = ''makeTempFileSync''"
  "decl_name Deno_memoryUsage = ''memoryUsage''" "decl_name Deno_mkdir = ''mkdir''"
  "decl_name Deno_mkdirSync = ''mkdirSync''" "decl_name Deno_open = ''open''"
  "decl_name Deno_openSync = ''openSync''" "decl_name Deno_osRelease = ''osRelease''"
  "decl_name Deno_osUptime = ''osUptime''" "decl_name Deno_read = ''read''"
  "decl_name Deno_readDir = ''readDir''" "decl_name Deno_readDirSync = ''readDirSync''"
  "decl_name Deno_readFile = ''readFile''" "decl_name Deno_readFileSync = ''readFileSync''"
  "decl_name Deno_readLink = ''readLink''" "decl_name Deno_readLinkSync = ''readLinkSync''"
  "decl_name Deno_readSync = ''readSync''" "decl_name Deno_readTextFile = ''readTextFile''"
  "decl_name Deno_readTextFileSync = ''readTextFileSync''"
  "decl_name Deno_realPath = ''realPath''" "decl_name Deno_realPathSync = ''realPathSync''"
  "decl_name Deno_remove = ''remove''" "decl_name Deno_removeSync = ''removeSync''"
  "decl_name Deno_rename = ''rename''" "decl_name Deno_renameSync = ''renameSync''"
  "decl_name Deno_resolveDns_1 = ''resolveDns''" "decl_name Deno_resolveDns_2 = ''resolveDns''"
  "decl_name Deno_resolveDns_3 = ''resolveDns''" "decl_name Deno_resolveDns_4 = ''resolveDns''"
  "decl_name Deno_resolveDns_5 = ''resolveDns''" "decl_name Deno_resolveDns_6 = ''resolveDns''"
  "decl_name Deno_resolveDns_7 = ''resolveDns''" "decl_name Deno_resolveDns_8 = ''resolveDns''"
  "decl_name Deno_Process = ''Process''" "decl_name Deno_run_1 = ''run''"
  "decl_name Deno_run_2 = ''run''" "decl_name Deno_UnstableRunOptions = ''UnstableRunOptions''"
  "decl_name Deno_shutdown = ''shutdown''" "decl_name Deno_stat = ''stat''"
  "decl_name Deno_statSync = ''statSync''" "decl_name Deno_symlink = ''symlink''"
  "decl_name Deno_symlinkSync = ''symlinkSync''" "decl_name Deno_test_1 = ''test''"
  "decl_name Deno_test_2 = ''test''" "decl_name Deno_test_3 = ''test''"
  "decl_name Deno_test_4 = ''test''" "decl_name Deno_test_5 = ''test''"
  "decl_name Deno_test_6 = ''test''" "decl_name Deno_truncate = ''truncate''"
  "decl_name Deno_truncateSync = ''truncateSync''" "decl_name Deno_uid = ''uid''"
  "decl_name Deno_watchFs = ''watchFs''" "decl_name Deno_write = ''write''"
  "decl_name Deno_writeFile = ''writeFile''" "decl_name Deno_writeFileSync = ''writeFileSync''"
  "decl_name Deno_writeSync = ''writeSync''" "decl_name Deno_writeTextFile = ''writeTextFile''"
  "decl_name Deno_writeTextFileSync = ''writeTextFileSync''" "decl_name Deno_args = ''args''"
  "decl_name Deno_Addr = ''Addr''" "decl_name Deno_Closer = ''Closer''"
  "decl_name Deno_Conn = ''Conn''" "decl_name Deno_ConnectOptions = ''ConnectOptions''"
  "decl_name Deno_ConnectTlsOptions_1 = ''ConnectTlsOptions''"
  "decl_name Deno_ConnectTlsOptions_2 = ''ConnectTlsOptions''"
  "decl_name Deno_DirEntry = ''DirEntry''"
  "decl_name Deno_EnvPermissionDescriptor = ''EnvPermissionDescriptor''"
  "decl_name Deno_FfiPermissionDescriptor = ''FfiPermissionDescriptor''"
  "decl_name Deno_SysPermissionDescriptor = ''SysPermissionDescriptor''"
  "decl_name Deno_Env = ''Env''" "decl_name Deno_FileInfo = ''FileInfo''"
  "decl_name Deno_FsEvent = ''FsEvent''" "decl_name Deno_FsEventFlag = ''FsEventFlag''"
  "decl_name Deno_FsWatcher = ''FsWatcher''"
  "decl_name Deno_HrtimePermissionDescriptor = ''HrtimePermissionDescriptor''"
  "decl_name Deno_InspectOptions = ''InspectOptions''" "decl_name Deno_Listener = ''Listener''"
  "decl_name Deno_ListenOptions = ''ListenOptions''"
  "decl_name Deno_ListenTlsOptions_1 = ''ListenTlsOptions''"
  "decl_name Deno_ListenTlsOptions_2 = ''ListenTlsOptions''"
  "decl_name Deno_MakeTempOptions = ''MakeTempOptions''"
  "decl_name Deno_MemoryUsage = ''MemoryUsage''" "decl_name Deno_Metrics = ''Metrics''"
  "decl_name Deno_MkdirOptions = ''MkdirOptions''" "decl_name Deno_NetAddr = ''NetAddr''"
  "decl_name Deno_NetPermissionDescriptor = ''NetPermissionDescriptor''"
  "decl_name Deno_OpenOptions = ''OpenOptions''" "decl_name Deno_OpMetrics = ''OpMetrics''"
  "decl_name Deno_PermissionDescriptor = ''PermissionDescriptor''"
  "decl_name Deno_PermissionName = ''PermissionName''"
  "decl_name Deno_PermissionOptions = ''PermissionOptions''"
  "decl_name Deno_PermissionOptionsObject = ''PermissionOptionsObject''"
  "decl_name Deno_PermissionState = ''PermissionState''"
  "decl_name Deno_PermissionStatusEventMap = ''PermissionStatusEventMap''"
  "decl_name Deno_ProcessStatus = ''ProcessStatus''" "decl_name Deno_Reader = ''Reader''"
  "decl_name Deno_ReaderSync = ''ReaderSync''"
  "decl_name Deno_ReadFileOptions = ''ReadFileOptions''"
  "decl_name Deno_ReadPermissionDescriptor = ''ReadPermissionDescriptor''"
  "decl_name Deno_RemoveOptions = ''RemoveOptions''"
  "decl_name Deno_ResourceMap = ''ResourceMap''" "decl_name Deno_RunOptions = ''RunOptions''"
  "decl_name Deno_RunPermissionDescriptor = ''RunPermissionDescriptor''"
  "decl_name Deno_Seeker = ''Seeker''" "decl_name Deno_SeekerSync = ''SeekerSync''"
  "decl_name Deno_SetRawOptions = ''SetRawOptions''" "decl_name Deno_Signal = ''Signal''"
  "decl_name Deno_SymlinkOptions = ''SymlinkOptions''"
  "decl_name Deno_TestDefinition = ''TestDefinition''"
  "decl_name Deno_TestStepDefinition = ''TestStepDefinition''"
  "decl_name Deno_TestContext = ''TestContext''" "decl_name Deno_TcpConn = ''TcpConn''"
  "decl_name Deno_TcpListenOptions_1 = ''TcpListenOptions''"
  "decl_name Deno_TcpListenOptions_2 = ''TcpListenOptions''"
  "decl_name Deno_TlsConn_1 = ''TlsConn''" "decl_name Deno_TlsConn_2 = ''TlsConn''"
  "decl_name Deno_TlsListener = ''TlsListener''" "decl_name Deno_UnixAddr = ''UnixAddr''"
  "decl_name Deno_UnixConn = ''UnixConn''"
  "decl_name Deno_WriteFileOptions = ''WriteFileOptions''"
  "decl_name Deno_WritePermissionDescriptor = ''WritePermissionDescriptor''"
  "decl_name Deno_Writer = ''Writer''" "decl_name Deno_WriterSync = ''WriterSync''"
  "decl_name Deno_CAARecord = ''CAARecord''" "decl_name Deno_MXRecord = ''MXRecord''"
  "decl_name Deno_NAPTRRecord = ''NAPTRRecord''"
  "decl_name Deno_ResolveDnsOptions = ''ResolveDnsOptions''"
  "decl_name Deno_SOARecord = ''SOARecord''" "decl_name Deno_SRVRecord = ''SRVRecord''"
  "decl_name Deno_RecordType = ''RecordType''" "decl_name Deno_build = ''build''"
  "decl_name Deno_customInspect = ''customInspect''" "decl_name Deno_env = ''env''"
  "decl_name Deno_errors = ''errors''" "decl_name Deno_mainModule = ''mainModule''"
  "decl_name Deno_metrics = ''metrics''" "decl_name Deno_noColor = ''noColor''"
  "decl_name Deno_permissions = ''permissions''" "decl_name Deno_pid = ''pid''"
  "decl_name Deno_ppid = ''ppid''" "decl_name Deno_resources = ''resources''"
  "decl_name Deno_version = ''version''" "decl_name Deno_stdin = ''stdin''"
  "decl_name Deno_stdout = ''stdout''" "decl_name Deno_stderr = ''stderr''"
  "decl_name Deno_TlsHandshakeInfo_1 = ''TlsHandshakeInfo''"
  "decl_name Deno_TlsHandshakeInfo_2 = ''TlsHandshakeInfo''"
  "decl_name Deno_UnixConnectOptions = ''UnixConnectOptions''"
  "decl_name Deno_UnixListenOptions = ''UnixListenOptions''" "decl_name Deno_futime = ''futime''"
  "decl_name Deno_futimeSync = ''futimeSync''" "decl_name Deno_utime = ''utime''"
  "decl_name Deno_utimeSync = ''utimeSync''"
  by (simp_all add: Deno_member_defs Deno_errors_def)

lemma Deno_errors_member_names [simp]:
  "decl_name Deno_errors_AddrInUse = ''AddrInUse''"
  "decl_name Deno_errors_AddrNotAvailable = ''AddrNotAvailable''"
  "decl_name Deno_errors_AlreadyExists = ''AlreadyExists''"
  "decl_name Deno_errors_BadResource = ''BadResource''"
  "decl_name Deno_errors_BrokenPipe = ''BrokenPipe''" "decl_name Deno_errors_Busy = ''Busy''"
  "decl_name Deno_errors_ConnectionAborted = ''ConnectionAborted''"
  "decl_name Deno_errors_ConnectionRefused = ''ConnectionRefused''"
  "decl_name Deno_errors_ConnectionReset = ''ConnectionReset''"
  "decl_name Deno_errors_Http = ''Http''" "decl_name Deno_errors_Interrupted = ''Interrupted''"
  "decl_name Deno_errors_InvalidData = ''InvalidData''"
  "decl_name Deno_errors_NotConnected = ''NotConnected''"
  "decl_name Deno_errors_NotFound = ''NotFound''"
  "decl_name Deno_errors_PermissionDenied = ''PermissionDenied''"
  "decl_name Deno_errors_TimedOut = ''TimedOut''"
  "decl_name Deno_errors_UnexpectedEof = ''UnexpectedEof''"
  "decl_name Deno_errors_WriteZero = ''WriteZero''"
  by (simp_all add: Deno_errors_member_defs)

lemma Global_names [simp]:
  "decl_name import_url = ''url''" "decl_name import_stream_web = ''node:stream/web''"
  "decl_name Global_EventTarget = ''EventTarget''" "decl_name Global_Event = ''Event''"
  "decl_name Global_EventInit = ''EventInit''"
  "decl_name Global_EventListenerOptions = ''EventListenerOptions''"
  "decl_name Global_AddEventListenerOptions = ''AddEventListenerOptions''"
  "decl_name Global_EventListener = ''EventListener''"
  "decl_name Global_EventListenerObject = ''EventListenerObject''"
  "decl_name Global_EventListenerOrEventListenerObject = ''EventListenerOrEventListenerObject''"
  "decl_name Deno = ''Deno''" "decl_name test_internals_TestDefinition = ''TestDefinition''"
  "decl_name test_internals_testDefinitions = ''testDefinitions''"
  "decl_name test_internals = ''@deno/shim-deno/test-internals''"
  by (simp_all add: Global_defs Deno_def)

subsection \<open>The error classes\<close>

lemma error_classes_eq: "error_classes = Deno_errors_members"
  by (simp add: error_classes_def named_def Deno_members_def Deno_errors_def)

lemma error_class_names:
  "map decl_name error_classes =
    [''AddrInUse'', ''AddrNotAvailable'', ''AlreadyExists'', ''BadResource'', ''BrokenPipe'',
     ''Busy'', ''ConnectionAborted'', ''ConnectionRefused'', ''ConnectionReset'', ''Http'',
     ''Interrupted'', ''InvalidData'', ''NotConnected'', ''NotFound'', ''PermissionDenied'',
     ''TimedOut'', ''UnexpectedEof'', ''WriteZero'']"
  by (simp add: error_classes_eq Deno_errors_members_def)

lemma NotFound_in_error_classes: "Deno_errors_NotFound \<in> set error_classes"
  by (simp add: error_classes_eq Deno_errors_members_def)

lemma BrokenPipe_in_error_classes: "Deno_errors_BrokenPipe \<in> set error_classes"
  by (simp add: error_classes_eq Deno_errors_members_def)

text \<open>
  Claim C2. The namespace \<^verbatim>\<open>Deno.errors\<close> declares a taxonomy of named error classes, among
  them \<^verbatim>\<open>NotFound\<close>, \<^verbatim>\<open>PermissionDenied\<close>, \<^verbatim>\<open>ConnectionReset\<close> and \<^verbatim>\<open>BrokenPipe\<close>, and every
  declaration in \<^verbatim>\<open>Deno.errors\<close> is a class that extends \<^verbatim>\<open>Error\<close>.
\<close>

theorem errors_taxonomy:
  "set [''NotFound'', ''PermissionDenied'', ''ConnectionReset'', ''BrokenPipe'']
      \<subseteq> set (map decl_name error_classes)
   \<and> (\<forall>d\<in>set error_classes. is_class d \<and> class_extends d = Some (TRef ''Error'' []))"
proof
  show "set [''NotFound'', ''PermissionDenied'', ''ConnectionReset'', ''BrokenPipe'']
      \<subseteq> set (map decl_name error_classes)"
    unfolding error_class_names by simp
next
  show "\<forall>d\<in>set error_classes. is_class d \<and> class_extends d = Some (TRef ''Error'' [])"
    unfolding error_classes_eq Deno_errors_members_def
    by (simp add: Deno_errors_member_defs)
qed

theorem errors_taxonomy_witness:
  "Deno_errors_BrokenPipe \<in> set error_classes
   \<and> decl_name Deno_errors_BrokenPipe = ''BrokenPipe''
   \<and> is_class Deno_errors_BrokenPipe
   \<and> class_extends Deno_errors_BrokenPipe = Some (TRef ''Error'' [])"
  using errors_taxonomy BrokenPipe_in_error_classes by auto

text \<open>
  Claim C10. \<^verbatim>\<open>Deno.errors\<close> declares eighteen classes. \<^verbatim>\<open>NotFound\<close> is the only one with a
  member of its own, the field \<^verbatim>\<open>code: string\<close>; every other class has an empty body and so
  only the members it inherits from \<^verbatim>\<open>Error\<close>.
\<close>

theorem errors_own_members:
  "length error_classes = 18
   \<and> (\<forall>d\<in>set error_classes. (class_members d \<noteq> []) = (decl_name d = ''NotFound''))
   \<and> map class_members (named ''NotFound'' error_classes)
       = [[CField [] ''code'' False (Some TString) None]]"
proof (intro conjI)
  show "length error_classes = 18"
    by (simp add: error_classes_eq Deno_errors_members_def)
next
  show "\<forall>d\<in>set error_classes. (class_members d \<noteq> []) = (decl_name d = ''NotFound'')"
    unfolding error_classes_eq Deno_errors_members_def
    by (simp add: Deno_errors_member_defs)
next
  have "named ''NotFound'' error_classes = [Deno_errors_NotFound]"
    by (simp add: named_def error_classes_eq Deno_errors_members_def)
  then show "map class_members (named ''NotFound'' error_classes)
       = [[CField [] ''code'' False (Some TString) None]]"
    by (simp add: Deno_errors_NotFound_def)
qed

theorem errors_own_members_witness:
  "Deno_errors_NotFound \<in> set error_classes
   \<and> decl_name Deno_errors_NotFound = ''NotFound''
   \<and> class_members Deno_errors_NotFound \<noteq> []"
  using errors_own_members NotFound_in_error_classes by auto

subsection \<open>Lookups in the namespace\<close>

lemma resolve_FsFile: "resolve ''FsFile'' = [Deno_FsFile]"
  by (simp add: resolve_def unqualify_def named_def Deno_members_def) (simp add: Deno_FsFile_def)

lemma resolve_SeekMode: "resolve ''Deno.SeekMode'' = [Deno_SeekMode]"
  by (simp add: resolve_def unqualify_def named_def Deno_members_def) (simp add: Deno_SeekMode_def)

lemma resolve_Permissions: "resolve ''Permissions'' = [Deno_Permissions]"
  by (simp add: resolve_def unqualify_def named_def Deno_members_def)
     (simp add: Deno_Permissions_def)

lemma resolve_PermissionStatus: "resolve ''PermissionStatus'' = [Deno_PermissionStatus]"
  by (simp add: resolve_def unqualify_def named_def Deno_members_def)
     (simp add: Deno_PermissionStatus_def)

lemma resolve_PermissionState: "resolve ''Deno.PermissionState'' = [Deno_PermissionState]"
  by (simp add: resolve_def unqualify_def named_def Deno_members_def)
     (simp add: Deno_PermissionState_def)

lemma resolve_PermissionDescriptor:
  "resolve ''Deno.PermissionDescriptor'' = [Deno_PermissionDescriptor]"
  by (simp add: resolve_def unqualify_def named_def Deno_members_def)
     (simp add: Deno_PermissionDescriptor_def)

lemma resolve_PermissionName: "resolve ''PermissionName'' = [Deno_PermissionName]"
  by (simp add: resolve_def unqualify_def named_def Deno_members_def)
     (simp add: Deno_PermissionName_def)

lemma resolve_descriptors:
  "resolve ''RunPermissionDescriptor'' = [Deno_RunPermissionDescriptor]"
  "resolve ''ReadPermissionDescriptor'' = [Deno_ReadPermissionDescriptor]"
  "resolve ''WritePermissionDescriptor'' = [Deno_WritePermissionDescriptor]"
  "resolve ''NetPermissionDescriptor'' = [Deno_NetPermissionDescriptor]"
  "resolve ''EnvPermissionDescriptor'' = [Deno_EnvPermissionDescriptor]"
  "resolve ''SysPermissionDescriptor'' = [Deno_SysPermissionDescriptor]"
  "resolve ''FfiPermissionDescriptor'' = [Deno_FfiPermissionDescriptor]"
  "resolve ''HrtimePermissionDescriptor'' = [Deno_HrtimePermissionDescriptor]"
  by (simp_all add: resolve_def unqualify_def named_def Deno_members_def)
     (simp_all add: Deno_RunPermissionDescriptor_def Deno_ReadPermissionDescriptor_def
        Deno_WritePermissionDescriptor_def Deno_NetPermissionDescriptor_def
        Deno_EnvPermissionDescriptor_def Deno_SysPermissionDescriptor_def
        Deno_FfiPermissionDescriptor_def Deno_HrtimePermissionDescriptor_def)

lemma alternatives_PermissionDescriptor:
  "alternatives ''Deno.PermissionDescriptor'' =
    [TRef ''RunPermissionDescriptor'' [], TRef ''ReadPermissionDescriptor'' [],
     TRef ''WritePermissionDescriptor'' [], TRef ''NetPermissionDescriptor'' [],
     TRef ''EnvPermissionDescriptor'' [], TRef ''SysPermissionDescriptor'' [],
     TRef ''FfiPermissionDescriptor'' [], TRef ''HrtimePermissionDescriptor'' []]"
  by (simp add: alternatives_def resolve_PermissionDescriptor)
     (simp add: Deno_PermissionDescriptor_def)

subsection \<open>Seeking\<close>

text \<open>
  Claim C8. The enum \<^verbatim>\<open>Deno.SeekMode\<close> has exactly the three members \<^verbatim>\<open>Start = 0\<close>,
  \<^verbatim>\<open>Current = 1\<close>, \<^verbatim>\<open>End = 2\<close>. \<^verbatim>\<open>FsFile.seek\<close> and \<^verbatim>\<open>FsFile.seekSync\<close> are each declared
  once; each takes a required numeric offset and a required \<^verbatim>\<open>Deno.SeekMode\<close>, which is that
  enum, and yields a number: \<^verbatim>\<open>seekSync\<close> returns it, \<^verbatim>\<open>seek\<close> returns a promise of it.
\<close>

theorem seek_mode_and_seek:
  "map enum_members (resolve ''Deno.SeekMode'')
     = [[(''Start'', Some (ENum 0)), (''Current'', Some (ENum 1)), (''End'', Some (ENum 2))]]
   \<and> concat (map method_sig (filter (cmember_named ''seek'')
         (concat (map class_members (resolve ''FsFile'')))))
     = [(''seek'',
         [Param ''_offset'' False TNumber, Param ''_whence'' False (TRef ''Deno.SeekMode'' [])],
         TRef ''Promise'' [TNumber])]
   \<and> concat (map method_sig (filter (cmember_named ''seekSync'')
         (concat (map class_members (resolve ''FsFile'')))))
     = [(''seekSync'',
         [Param ''_offset'' False TNumber, Param ''_whence'' False (TRef ''Deno.SeekMode'' [])],
         TNumber)]
   \<and> awaited (TRef ''Promise'' [TNumber]) = TNumber
   \<and> awaited TNumber = TNumber"
  unfolding resolve_SeekMode resolve_FsFile
  by (simp add: Deno_SeekMode_def Deno_FsFile_def)

subsection \<open>Permissions\<close>

text \<open>The literal type of the required property \<^verbatim>\<open>name\<close> of an interface.\<close>

lemma permission_discriminants:
  "map (\<lambda>t. map (filter (member_named ''name'') \<circ> iface_members) (resolve (ref_name t)))
       (alternatives ''Deno.PermissionDescriptor'')
     = [[[Prop False ''name'' False (TStrLit ''run'')]],
        [[Prop False ''name'' False (TStrLit ''read'')]],
        [[Prop False ''name'' False (TStrLit ''write'')]],
        [[Prop False ''name'' False (TStrLit ''net'')]],
        [[Prop False ''name'' False (TStrLit ''env'')]],
        [[Prop False ''name'' False (TStrLit ''sys'')]],
        [[Prop False ''name'' False (TStrLit ''ffi'')]],
        [[Prop False ''name'' False (TStrLit ''hrtime'')]]]"
  unfolding alternatives_PermissionDescriptor
  by (simp add: resolve_descriptors)
     (simp add: Deno_RunPermissionDescriptor_def Deno_ReadPermissionDescriptor_def
        Deno_WritePermissionDescriptor_def Deno_NetPermissionDescriptor_def
        Deno_EnvPermissionDescriptor_def Deno_SysPermissionDescriptor_def
        Deno_FfiPermissionDescriptor_def Deno_HrtimePermissionDescriptor_def)

lemma permission_names:
  "alternatives ''PermissionName'' =
     map TStrLit [''run'', ''read'', ''write'', ''net'', ''env'', ''sys'', ''ffi'', ''hrtime'']"
  by (simp add: alternatives_def resolve_PermissionName) (simp add: Deno_PermissionName_def)

lemma permission_methods:
  "concat (map method_sig (concat (map class_members (resolve ''Permissions''))))
     = [(''query'', [Param ''desc'' False (TRef ''Deno.PermissionDescriptor'' [])],
           TRef ''Promise'' [TRef ''PermissionStatus'' []]),
        (''querySync'', [Param ''_desc'' False (TRef ''Deno.PermissionDescriptor'' [])],
           TRef ''PermissionStatus'' []),
        (''revoke'', [Param ''desc'' False (TRef ''Deno.PermissionDescriptor'' [])],
           TRef ''Promise'' [TRef ''PermissionStatus'' []]),
        (''revokeSync'', [Param ''_desc'' False (TRef ''Deno.PermissionDescriptor'' [])],
           TRef ''PermissionStatus'' []),
        (''request'', [Param ''desc'' False (TRef ''Deno.PermissionDescriptor'' [])],
           TRef ''Promise'' [TRef ''PermissionStatus'' []]),
        (''requestSync'', [Param ''desc'' False (TRef ''Deno.PermissionDescriptor'' [])],
           TRef ''PermissionStatus'' [])]"
  unfolding resolve_Permissions by (simp add: Deno_Permissions_def)

lemma permission_state:
  "filter (cmember_named ''state'') (concat (map class_members (resolve ''PermissionStatus'')))
     = [CField [Readonly] ''state'' False (Some (TRef ''Deno.PermissionState'' [])) None]
   \<and> alternatives ''Deno.PermissionState''
     = [TStrLit ''granted'', TStrLit ''denied'', TStrLit ''prompt'']"
  unfolding resolve_PermissionStatus alternatives_def resolve_PermissionState
  by (simp add: Deno_PermissionStatus_def Deno_PermissionState_def)

text \<open>
  Claim C3. A permission descriptor is one of exactly eight interfaces, told apart by the
  literal type of their required property \<^verbatim>\<open>name\<close>: run, read, write, net, env, sys, ffi and
  hrtime, which are also the eight alternatives of \<^verbatim>\<open>PermissionName\<close>. The class
  \<^verbatim>\<open>Permissions\<close> has exactly the methods \<^verbatim>\<open>query\<close>, \<^verbatim>\<open>revoke\<close>, \<^verbatim>\<open>request\<close> and their
  \<^verbatim>\<open>Sync\<close> variants; each takes one required \<^verbatim>\<open>Deno.PermissionDescriptor\<close> and yields a
  \<^verbatim>\<open>PermissionStatus\<close> (the asynchronous ones as a promise of it), whose readonly \<^verbatim>\<open>state\<close> is
  a \<^verbatim>\<open>Deno.PermissionState\<close>, that is one of granted, denied and prompt.
\<close>

theorem permission_descriptors_and_status:
  "map ref_name (alternatives ''Deno.PermissionDescriptor'')
     = [''RunPermissionDescriptor'', ''ReadPermissionDescriptor'', ''WritePermissionDescriptor'',
        ''NetPermissionDescriptor'', ''EnvPermissionDescriptor'', ''SysPermissionDescriptor'',
        ''FfiPermissionDescriptor'', ''HrtimePermissionDescriptor'']
   \<and> map (\<lambda>t. map (filter (member_named ''name'') \<circ> iface_members) (resolve (ref_name t)))
       (alternatives ''Deno.PermissionDescriptor'')
     = map (\<lambda>k. [[Prop False ''name'' False (TStrLit k)]])
        [''run'', ''read'', ''write'', ''net'', ''env'', ''sys'', ''ffi'', ''hrtime'']
   \<and> distinct [''run'', ''read'', ''write'', ''net'', ''env'', ''sys'', ''ffi'', ''hrtime'']
   \<and> alternatives ''PermissionName''
     = map TStrLit [''run'', ''read'', ''write'', ''net'', ''env'', ''sys'', ''ffi'', ''hrtime'']
   \<and> map (\<lambda>(n, ps, r). (n, map param_optional ps, map param_type ps, awaited r))
       (concat (map method_sig (concat (map class_members (resolve ''Permissions'')))))
     = map (\<lambda>n. (n, [False], [TRef ''Deno.PermissionDescriptor'' []], TRef ''PermissionStatus'' []))
        [''query'', ''querySync'', ''revoke'', ''revokeSync'', ''request'', ''requestSync'']
   \<and> map (\<lambda>(n, ps, r). r = awaited r)
       (concat (map method_sig (concat (map class_members (resolve ''Permissions'')))))
     = [False, True, False, True, False, True]
   \<and> filter (cmember_named ''state'') (concat (map class_members (resolve ''PermissionStatus'')))
     = [CField [Readonly] ''state'' False (Some (TRef ''Deno.PermissionState'' [])) None]
   \<and> alternatives ''Deno.PermissionState''
     = [TStrLit ''granted'', TStrLit ''denied'', TStrLit ''prompt'']"
  unfolding permission_discriminants permission_names permission_methods
  by (simp add: alternatives_PermissionDescriptor permission_state)

subsection \<open>Signatures without bodies\<close>

lemma Deno_errors_signature_only: "signature_only Deno_errors"
  unfolding Deno_errors_def signature_only.simps Deno_errors_members_def list_all_Cons_iff
    list_all_Nil_iff
  by (intro conjI TrueI) (simp_all add: Deno_errors_member_defs)

lemma Deno_is_namespace: "namespace_members Deno = Deno_members"
  by (simp add: Deno_def)

lemma Deno_members_exported: "\<forall>d\<in>set Deno_members. Export \<in> set (decl_mods d)"
  unfolding Deno_members_def Ball_set list_all_Cons_iff list_all_Nil_iff
  by (intro conjI TrueI) (simp_all add: Deno_member_defs Deno_errors_def)

lemma readFile_in_Deno: "Deno_readFile \<in> set (namespace_members Deno)"
  by (simp add: Deno_is_namespace Deno_members_def)

text \<open>
  Claim C4. Every member of the namespace \<^verbatim>\<open>Deno\<close> is exported and is declared by its
  signature only: no function, method, accessor or constructor has a body, no constant or
  field has an initializer, and the namespace holds no statement. The classes nested in
  \<^verbatim>\<open>Deno.errors\<close> are included. The only values written in the namespace are the three
  numeric literals of the enum \<^verbatim>\<open>SeekMode\<close>.
\<close>

theorem declarations_only:
  "\<forall>d\<in>set (namespace_members Deno). Export \<in> set (decl_mods d) \<and> signature_only d"
proof -
  have "\<forall>d\<in>set Deno_members. signature_only d"
    unfolding Deno_members_def Ball_set list_all_Cons_iff list_all_Nil_iff
    by (intro conjI TrueI) (simp_all add: Deno_errors_signature_only Deno_member_defs)
  with Deno_members_exported show ?thesis
    unfolding Deno_is_namespace by blast
qed

theorem declarations_only_witness:
  "Deno_readFile \<in> set (namespace_members Deno)
   \<and> Export \<in> set (decl_mods Deno_readFile) \<and> signature_only Deno_readFile"
  using declarations_only readFile_in_Deno by blast

subsection \<open>Asynchronous and synchronous variants\<close>

lemma fn_sigs_open:
  "fn_sigs ''open'' =
     [([Param ''path'' False (TUnion [TString, TRef ''URL'' []]),
        Param ''options'' True (TRef ''OpenOptions'' [])], TRef ''Promise'' [TRef ''FsFile'' []])]"
  "fn_sigs ''openSync'' =
     [([Param ''path'' False (TUnion [TString, TRef ''URL'' []]),
        Param ''options'' True (TRef ''OpenOptions'' [])], TRef ''FsFile'' [])]"
  by (simp_all add: fn_sigs_def named_def Deno_members_def)
     (simp_all add: Deno_open_def Deno_openSync_def)

lemma fn_sigs_readFile:
  "fn_sigs ''readFile'' =
     [([Param ''path'' False (TUnion [TString, TRef ''URL'' []]),
        Param ''options'' True (TRef ''ReadFileOptions'' [])],
       TRef ''Promise'' [TRef ''Uint8Array'' []])]"
  "fn_sigs ''readFileSync'' =
     [([Param ''path'' False (TUnion [TString, TRef ''URL'' []])], TRef ''Uint8Array'' [])]"
  by (simp_all add: fn_sigs_def named_def Deno_members_def)
     (simp_all add: Deno_readFile_def Deno_readFileSync_def)

lemma fn_sigs_readTextFile:
  "fn_sigs ''readTextFile'' =
     [([Param ''path'' False (TUnion [TString, TRef ''URL'' []]),
        Param ''options'' True (TRef ''ReadFileOptions'' [])], TRef ''Promise'' [TString])]"
  "fn_sigs ''readTextFileSync'' =
     [([Param ''path'' False (TUnion [TString, TRef ''URL'' []])], TString)]"
  by (simp_all add: fn_sigs_def named_def Deno_members_def)
     (simp_all add: Deno_readTextFile_def Deno_readTextFileSync_def)

lemma fn_sigs_writeFile:
  "fn_sigs ''writeFile'' =
     [([Param ''path'' False (TUnion [TString, TRef ''URL'' []]),
        Param ''data'' False
          (TUnion [TRef ''Uint8Array'' [], TRef ''ReadableStream'' [TRef ''Uint8Array'' []]]),
        Param ''options'' True (TRef ''WriteFileOptions'' [])], TRef ''Promise'' [TVoid])]"
  "fn_sigs ''writeFileSync'' =
     [([Param ''path'' False (TUnion [TString, TRef ''URL'' []]),
        Param ''data'' False (TRef ''Uint8Array'' []),
        Param ''options'' True (TRef ''WriteFileOptions'' [])], TVoid)]"
  by (simp_all add: fn_sigs_def named_def Deno_members_def)
     (simp_all add: Deno_writeFile_def Deno_writeFileSync_def)

lemma fn_sigs_readDir:
  "fn_sigs ''readDir'' =
     [([Param ''path'' False (TUnion [TString, TRef ''URL'' []])],
       TRef ''AsyncIterable'' [TRef ''DirEntry'' []])]"
  "fn_sigs ''readDirSync'' =
     [([Param ''path'' False (TUnion [TString, TRef ''URL'' []])],
       TRef ''Iterable'' [TRef ''DirEntry'' []])]"
  by (simp_all add: fn_sigs_def named_def Deno_members_def)
     (simp_all add: Deno_readDir_def Deno_readDirSync_def)

lemma members_of_ReadFileOptions:
  "members_of ''ReadFileOptions'' = [Prop False ''signal'' True (TRef ''AbortSignal'' [])]"
  by (simp add: members_of_def resolve_def unqualify_def named_def Deno_members_def)
     (simp add: Deno_ReadFileOptions_def)

text \<open>
  Claim C9. For the pairs \<^verbatim>\<open>open\<close>/\<^verbatim>\<open>openSync\<close>, \<^verbatim>\<open>readFile\<close>/\<^verbatim>\<open>readFileSync\<close>,
  \<^verbatim>\<open>readTextFile\<close>/\<^verbatim>\<open>readTextFileSync\<close> and \<^verbatim>\<open>writeFile\<close>/\<^verbatim>\<open>writeFileSync\<close>, both functions
  are declared once, both take the same first parameter \<^verbatim>\<open>path: string | URL\<close>, and the
  asynchronous one returns \<^verbatim>\<open>Promise<T>\<close> for exactly the \<^verbatim>\<open>T\<close> the synchronous one returns.
  \<^verbatim>\<open>readFileSync\<close> and \<^verbatim>\<open>readTextFileSync\<close> take the path only, while \<^verbatim>\<open>readFile\<close> and
  \<^verbatim>\<open>readTextFile\<close> also take \<^verbatim>\<open>options?: ReadFileOptions\<close>, whose only member is
  \<^verbatim>\<open>signal?: AbortSignal\<close>: for these two pairs the abort signal exists on the asynchronous
  variant only.
\<close>

theorem sync_variants:
  "sync_pair_ok ''open'' \<and> sync_pair_ok ''readFile'' \<and> sync_pair_ok ''readTextFile''
   \<and> sync_pair_ok ''writeFile''
   \<and> map (hd \<circ> fst)
        (concat (map fn_sigs [''open'', ''openSync'', ''readFile'', ''readFileSync'',
           ''readTextFile'', ''readTextFileSync'', ''writeFile'', ''writeFileSync'']))
      = replicate 8 (Param ''path'' False (TUnion [TString, TRef ''URL'' []]))
   \<and> map (tl \<circ> fst) (fn_sigs ''readFileSync'' @ fn_sigs ''readTextFileSync'') = [[], []]
   \<and> map (tl \<circ> fst) (fn_sigs ''readFile'' @ fn_sigs ''readTextFile'')
      = [[Param ''options'' True (TRef ''ReadFileOptions'' [])],
         [Param ''options'' True (TRef ''ReadFileOptions'' [])]]
   \<and> members_of ''ReadFileOptions'' = [Prop False ''signal'' True (TRef ''AbortSignal'' [])]"
  unfolding sync_pair_ok_def
  by (simp add: fn_sigs_open fn_sigs_readFile fn_sigs_readTextFile fn_sigs_writeFile
        members_of_ReadFileOptions eval_nat_numeral)

text \<open>
  The relation is particular to such pairs: \<^verbatim>\<open>readDir\<close> returns an \<^verbatim>\<open>AsyncIterable\<close> and
  \<^verbatim>\<open>readDirSync\<close> an \<^verbatim>\<open>Iterable\<close>, not a promise and its content.
\<close>

lemma readDir_not_a_promise: "\<not> sync_pair_ok ''readDir''"
  unfolding sync_pair_ok_def by (simp add: fn_sigs_readDir)

subsection \<open>Option and descriptor shapes\<close>




lemma option_shapes:
  "\<forall>d\<in>set Deno_members.
     is_option_shape d =
       (decl_name d \<in> set
         [''ConnectOptions'', ''ConnectTlsOptions'', ''EnvPermissionDescriptor'',
          ''FfiPermissionDescriptor'', ''SysPermissionDescriptor'',
          ''HrtimePermissionDescriptor'', ''InspectOptions'', ''ListenOptions'',
          ''ListenTlsOptions'', ''MakeTempOptions'', ''MkdirOptions'',
          ''NetPermissionDescriptor'', ''OpenOptions'', ''PermissionDescriptor'',
          ''PermissionOptions'', ''PermissionOptionsObject'', ''ReadFileOptions'',
          ''ReadPermissionDescriptor'', ''RemoveOptions'', ''ResolveDnsOptions'',
          ''RunOptions'', ''RunPermissionDescriptor'', ''SetRawOptions'', ''SymlinkOptions'',
          ''TcpListenOptions'', ''UnstableRunOptions'', ''WriteFileOptions'',
          ''WritePermissionDescriptor'', ''UnixConnectOptions'', ''UnixListenOptions''])"
  unfolding Deno_members_def Ball_set list_all_Cons_iff list_all_Nil_iff
  by (intro conjI TrueI)
     (simp_all add: is_option_shape_def ends_with_def Deno_member_defs Deno_errors_def)







subsection \<open>Resource handles\<close>








text \<open>
  Two more functions start with a required number, which they do not call \<^verbatim>\<open>rid\<close>:
  \<^verbatim>\<open>isatty(fd: number)\<close> and \<^verbatim>\<open>kill(pid: number, signo?: Signal)\<close>.
\<close>

lemma numeric_first_functions:
  "\<forall>d\<in>set Deno_members. is_function d \<longrightarrow>
     numeric_first d = (takes_rid d \<or> decl_name d \<in> {''isatty'', ''kill''})"
  unfolding Deno_members_def Ball_set list_all_Cons_iff list_all_Nil_iff
  by (intro conjI TrueI)
     (simp_all add: takes_rid_def numeric_first_def Deno_member_defs Deno_errors_def)

lemma fn_sigs_isatty: "fn_sigs ''isatty'' = [([Param ''fd'' False TNumber], TBoolean)]"
  by (simp add: fn_sigs_def named_def Deno_members_def) (simp add: Deno_isatty_def)






subsection \<open>Cancellation, scheduling and locking\<close>















text \<open>
  The test on names is by substring. It does fire in the file, on \<^verbatim>\<open>blocks\<close> of \<^verbatim>\<open>FileInfo\<close>
  and \<^verbatim>\<open>priority\<close> of \<^verbatim>\<open>SRVRecord\<close>; both are fields of results, not something an operation
  takes.
\<close>

lemma sched_or_lock_name_fires: "sched_or_lock_name ''blocks'' \<and> sched_or_lock_name ''priority''"
  by (simp add: sched_or_lock_name_def sched_lock_words_def)




end
